theory Spec2Isabelle
  imports Main
begin

section \<open>Values of the host language\<close>

text \<open>
  The service is JavaScript: its values are JSON-like. A string is a list of characters
  (one \<open>char\<close> per character; the texts of this program stay below code point 256),
  an object the list of its members in insertion order. A number of the model is an
  integer of magnitude below \<open>2^53\<close>: the integers a JavaScript number holds exactly,
  all of which print as their plain decimal digits. Fractions and larger numbers, whose
  printed form depends on floating-point rounding, are not values of the model.
\<close>

typedef safe_integer = "{i :: int. - (2 ^ 53) < i \<and> i < 2 ^ 53}"
  by (rule exI [of _ 0]) simp

datatype json =
    JUndefined
  | JNull
  | JBool bool
  | JNum safe_integer
  | JStr string
  | JArr "json list"
  | JObj "(string \<times> json) list"

text \<open>Truthiness, as \<open>if (v)\<close>, \<open>!v\<close> and \<open>v || d\<close> read it.\<close>

fun truthy :: "json \<Rightarrow> bool" where
  "truthy JUndefined = False"
| "truthy JNull = False"
| "truthy (JBool b) = b"
| "truthy (JNum n) = (Rep_safe_integer n \<noteq> 0)"
| "truthy (JStr s) = (s \<noteq> [])"
| "truthy (JArr xs) = True"
| "truthy (JObj fs) = True"

fun nullish :: "json \<Rightarrow> bool" where
  "nullish JUndefined = True"
| "nullish JNull = True"
| "nullish v = False"

text \<open>Decimal digits of a number, as a template literal prints it.\<close>

definition digit_char :: "nat \<Rightarrow> char" where
  "digit_char d = char_of (of_char CHR ''0'' + d)"

fun decimal :: "nat \<Rightarrow> string" where
  "decimal n = (if 10 \<le> n then decimal (n div 10) @ [digit_char (n mod 10)] else [digit_char n])"

declare decimal.simps [simp del]

definition decimal_int :: "int \<Rightarrow> string" where
  "decimal_int i = (if 0 \<le> i then decimal (nat i) else CHR ''-'' # decimal (nat (- i)))"

fun join_comma :: "string list \<Rightarrow> string" where
  "join_comma [] = []"
| "join_comma [s] = s"
| "join_comma (s # t # ss) = s @ '','' @ join_comma (t # ss)"

text \<open>
  \<open>${v}\<close> inside a template literal: the string conversion of \<open>v\<close>. An array prints
  its elements separated by commas, with nothing for a null or undefined element.
\<close>

fun template :: "json \<Rightarrow> string" where
  "template JUndefined = ''undefined''"
| "template JNull = ''null''"
| "template (JBool b) = (if b then ''true'' else ''false'')"
| "template (JNum n) = decimal_int (Rep_safe_integer n)"
| "template (JStr s) = s"
| "template (JArr xs) = join_comma (map (\<lambda>x. if nullish x then [] else template x) xs)"
| "template (JObj fs) = ''[object Object]''"

text \<open>
  A value read from the process environment, a query string or a defaulted parameter is a
  string or undefined: \<open>string option\<close>.
\<close>

definition js_value :: "string option \<Rightarrow> json" where
  "js_value v = (case v of None \<Rightarrow> JUndefined | Some s \<Rightarrow> JStr s)"

text \<open>A parameter default \<open>p = d\<close> replaces exactly the undefined argument.\<close>

definition default_param :: "string \<Rightarrow> string option \<Rightarrow> string" where
  "default_param d v = (case v of None \<Rightarrow> d | Some s \<Rightarrow> s)"

text \<open>
  An error object as the handlers read it: \<open>error.message\<close> and, for a failure the
  HTTP client reports with an upstream answer, \<open>error.response\<close> with its \<open>status\<close>
  and \<open>data\<close>.
\<close>

record axios_response =
  status :: nat
  response_data :: json

datatype jserror = Error (message: string) (response: "axios_response option")

text \<open>
  An error the engine itself raises (reading a member of null or undefined, calling what
  is no function, spreading what is not iterable). Its wording belongs to the engine and
  is not modelled.
\<close>

definition TypeError :: jserror where
  "TypeError = Error ''TypeError'' None"

text \<open>\<open>v.k\<close>, for the member names this program reads (none of them a built-in member).\<close>

fun js_member :: "json \<Rightarrow> string \<Rightarrow> jserror + json" where
  "js_member JUndefined k = Inl TypeError"
| "js_member JNull k = Inl TypeError"
| "js_member (JObj fs) k = (case map_of fs k of None \<Rightarrow> Inr JUndefined | Some v \<Rightarrow> Inr v)"
| "js_member v k = Inr JUndefined"

section \<open>Token signing (the jsonwebtoken library)\<close>

text \<open>
  \<open>jwt.sign(payload, secret, {issuer, expiresIn})\<close> is library code. It is modelled
  symbolically: a token is the claims it asserts together with the key that signed it.
  The clock counts seconds; \<open>iat\<close> is the time of signing and \<open>exp\<close> lies the parsed
  time span after it. Of the time-span notation the model reads a decimal count followed
  by one of the units \<open>s\<close>, \<open>m\<close>, \<open>h\<close>, \<open>d\<close>.
\<close>

record token =
  payload :: "(string \<times> json) list"
  key :: string
  iss :: string
  iat :: nat
  exp :: nat

record sign_options =
  issuer :: string
  expiresIn :: string

definition is_digit :: "char \<Rightarrow> bool" where
  "is_digit c = (48 \<le> (of_char c :: nat) \<and> (of_char c :: nat) \<le> 57)"

definition digits_value :: "string \<Rightarrow> nat" where
  "digits_value ds = foldl (\<lambda>a c. 10 * a + (of_char c - 48)) 0 ds"

definition unit_seconds :: "string \<Rightarrow> nat option" where
  "unit_seconds u =
     (if u = ''s'' then Some 1
      else if u = ''m'' then Some 60
      else if u = ''h'' then Some 3600
      else if u = ''d'' then Some 86400
      else None)"

definition timespan :: "string \<Rightarrow> nat option" where
  "timespan str =
     (let ds = takeWhile is_digit str; u = dropWhile is_digit str
      in if ds = [] then None
         else (case unit_seconds u of None \<Rightarrow> None | Some k \<Rightarrow> Some (digits_value ds * k)))"

definition jwt_sign ::
  "(string \<times> json) list \<Rightarrow> string \<Rightarrow> sign_options \<Rightarrow> nat \<Rightarrow> jserror + token" where
  "jwt_sign claims secretOrPrivateKey options now =
     (case timespan (expiresIn options) of
        None \<Rightarrow> Inl (Error ''\"expiresIn\" should be a number of seconds or string representing a timespan'' None)
      | Some d \<Rightarrow>
          Inr \<lparr>payload = claims, key = secretOrPrivateKey, iss = issuer options,
               iat = now, exp = now + d\<rparr>)"

section \<open>talkjsService.js\<close>

text \<open>The four credentials read from the process environment when the module loads.\<close>

record config =
  APP_ID_DEV :: "string option"
  SECRET_KEY_DEV :: "string option"
  APP_ID_PRO :: "string option"
  SECRET_KEY_PRO :: "string option"

text \<open>Lines 13 to 20 of \<open>generateToken\<close>: the pair the key type selects.\<close>

definition credentials :: "config \<Rightarrow> string \<Rightarrow> string option \<times> string option" where
  "credentials env keyType =
     (if keyType = ''prod'' then (APP_ID_PRO env, SECRET_KEY_PRO env)
      else (APP_ID_DEV env, SECRET_KEY_DEV env))"

definition keys_error :: "string \<Rightarrow> jserror" where
  "keys_error keyType = Error (''API keys not configured for '' @ keyType @ '' environment.'') None"

text \<open>
  \<open>generateToken(keyType = 'dev')\<close>. The argument is \<open>None\<close> for undefined; \<open>now\<close>
  is the clock at the call. The guard \<open>!appId || !secretKey\<close> holds for an undefined and
  for an empty value.
\<close>

definition generateToken :: "config \<Rightarrow> string option \<Rightarrow> nat \<Rightarrow> jserror + token" where
  "generateToken env keyType_arg now =
     (let keyType = default_param ''dev'' keyType_arg;
          (appId, secretKey) = credentials env keyType
      in if \<not> truthy (js_value appId) \<or> \<not> truthy (js_value secretKey)
         then Inl (keys_error keyType)
         else jwt_sign [(''tokenType'', JStr ''app'')] (template (js_value secretKey))
                \<lparr>issuer = template (js_value appId), expiresIn = ''30s''\<rparr> now)"

text \<open>
  The HTTP client (axios) together with the upstream API: a function from the request to
  a response or to the error the client rejects with. The client's configuration carries
  the method, the URL, the two headers and the request body.
\<close>

record axios_config =
  http_method :: string
  url :: string
  authorization :: token
  content_type :: string
  data :: json

type_synonym upstream = "axios_config \<Rightarrow> jserror + axios_response"

text \<open>Line 37 (and 63): the application identifier put into the URL.\<close>

definition appIdToUse :: "config \<Rightarrow> string \<Rightarrow> string option" where
  "appIdToUse env keyType = (if keyType = ''prod'' then APP_ID_PRO env else APP_ID_DEV env)"

text \<open>Line 38: the upstream URL of a call.\<close>

definition api_url :: "config \<Rightarrow> string \<Rightarrow> string \<Rightarrow> string" where
  "api_url env keyType endpoint =
     ''https://api.talkjs.com/v1/'' @ template (js_value (appIdToUse env keyType)) @ endpoint"

text \<open>Lines 63 to 67: the URL of a page of users; the cursor is added when it is truthy.\<close>

definition users_url :: "config \<Rightarrow> string \<Rightarrow> nat \<Rightarrow> json \<Rightarrow> string" where
  "users_url env keyType limit cursor =
     (let url0 = ''https://api.talkjs.com/v1/'' @ template (js_value (appIdToUse env keyType))
                   @ ''/users?limit='' @ decimal limit
      in if truthy cursor then url0 @ ''&startingAfter='' @ template cursor else url0)"

text \<open>
  \<open>callTalkJSApi(endpoint, method = 'GET', keyType = 'dev', data = null)\<close>. The result
  is paired with the requests handed to the HTTP client, in order. An error of
  \<open>generateToken\<close> leaves before any request; an error of the client is thrown on
  unchanged.
\<close>

definition callTalkJSApi ::
  "config \<Rightarrow> upstream \<Rightarrow> nat \<Rightarrow> string \<Rightarrow> string option \<Rightarrow> string option \<Rightarrow> json
     \<Rightarrow> (jserror + json) \<times> axios_config list" where
  "callTalkJSApi env axios now endpoint method_arg keyType_arg data_arg =
     (let method' = default_param ''GET'' method_arg;
          keyType = default_param ''dev'' keyType_arg;
          data' = (if data_arg = JUndefined then JNull else data_arg)
      in case generateToken env (Some keyType) now of
           Inl error \<Rightarrow> (Inl error, [])
         | Inr token \<Rightarrow>
             (let request =
                    \<lparr>http_method = method',
                     url = api_url env keyType endpoint,
                     authorization = token,
                     content_type = ''application/json'',
                     data = data'\<rparr>
              in case axios request of
                   Inl error \<Rightarrow> (Inl error, [request])
                 | Inr resp \<Rightarrow> (Inr (response_data resp), [request])))"

text \<open>Lines 72 to 77: \<open>axios.get(url, {headers})\<close>, a request without a body.\<close>

definition users_request :: "config \<Rightarrow> string \<Rightarrow> nat \<Rightarrow> json \<Rightarrow> token \<Rightarrow> axios_config" where
  "users_request env keyType limit cursor token =
     \<lparr>http_method = ''GET'', url = users_url env keyType limit cursor, authorization = token,
      content_type = ''application/json'', data = JUndefined\<rparr>"

text \<open>
  \<open>fetchUsersPage(limit, startingAfter = null, keyType = 'dev')\<close>. The token is
  generated before the \<open>try\<close>. Inside it, a status other than 200 is an error, and so
  is reading \<open>response.data.data\<close> from a null body or \<open>users.length\<close> from a null
  or undefined \<open>users\<close>; everything caught is thrown again.
\<close>

definition fetchUsersPage ::
  "config \<Rightarrow> upstream \<Rightarrow> nat \<Rightarrow> nat \<Rightarrow> json \<Rightarrow> string option
     \<Rightarrow> (jserror + json) \<times> axios_config list" where
  "fetchUsersPage env axios now limit startingAfter_arg keyType_arg =
     (let cursor = (if startingAfter_arg = JUndefined then JNull else startingAfter_arg);
          keyType = default_param ''dev'' keyType_arg
      in case generateToken env (Some keyType) now of
           Inl error \<Rightarrow> (Inl error, [])
         | Inr token \<Rightarrow>
             (let request = users_request env keyType limit cursor token
              in case axios request of
                   Inl error \<Rightarrow> (Inl error, [request])
                 | Inr resp \<Rightarrow>
                     if status resp = 200 then
                       (case js_member (response_data resp) ''data'' of
                          Inl error \<Rightarrow> (Inl error, [request])
                        | Inr users \<Rightarrow>
                            if nullish users then (Inl TypeError, [request])
                            else (Inr users, [request]))
                     else (Inl (Error (''Failed to fetch users page, status: ''
                                         @ decimal (status resp)) None), [request])))"

text \<open>
  What \<open>length\<close>, the spread \<open>...v\<close> and indexing see of a page value: the elements
  of an array, the characters of a string. For any other value the branch
  \<open>currentPageUsers && currentPageUsers.length > 0\<close> either is not taken or fails at
  the spread, and both ends set \<open>morePages = false\<close> with nothing appended: the same
  as for no elements.
\<close>

fun elements :: "json \<Rightarrow> json list" where
  "elements (JArr xs) = xs"
| "elements (JStr s) = map (\<lambda>c. JStr [c]) s"
| "elements v = []"

text \<open>
  The variables of \<open>fetchAllUsers\<close>, with the requests issued so far. The upstream may
  answer each request of the loop differently: \<open>axios n\<close> answers the request made after
  \<open>n\<close> earlier ones, at the time \<open>clock n\<close>.
\<close>

record fetch_state =
  allUsers :: "json list"
  startingAfter :: json
  morePages :: bool
  issued :: "axios_config list"

text \<open>
  One pass through the body of \<open>while (morePages)\<close>. The \<open>push\<close> comes before the
  read of the last element's \<open>id\<close>: when that read throws, the page is already appended.
\<close>

definition fetchAllUsers_body ::
  "config \<Rightarrow> (nat \<Rightarrow> upstream) \<Rightarrow> (nat \<Rightarrow> nat) \<Rightarrow> string \<Rightarrow> fetch_state \<Rightarrow> fetch_state" where
  "fetchAllUsers_body env axios clock keyType s =
     (let n = length (issued s)
      in case fetchUsersPage env (axios n) (clock n) 100 (startingAfter s) (Some keyType) of
           (Inl error, reqs) \<Rightarrow> s\<lparr>morePages := False, issued := issued s @ reqs\<rparr>
         | (Inr currentPageUsers, reqs) \<Rightarrow>
             (let s1 = s\<lparr>issued := issued s @ reqs\<rparr>;
                  page = elements currentPageUsers
              in if page \<noteq> [] then
                   (let s2 = s1\<lparr>allUsers := allUsers s1 @ page\<rparr>
                    in case js_member (last page) ''id'' of
                         Inl error \<Rightarrow> s2\<lparr>morePages := False\<rparr>
                       | Inr i \<Rightarrow>
                           (let s3 = s2\<lparr>startingAfter := i\<rparr>
                            in if length page < 100 then s3\<lparr>morePages := False\<rparr> else s3))
                 else s1\<lparr>morePages := False\<rparr>))"

text \<open>The loop itself; \<open>None\<close> is the loop that never ends.\<close>

partial_function (option) fetchAllUsers_while ::
  "config \<Rightarrow> (nat \<Rightarrow> upstream) \<Rightarrow> (nat \<Rightarrow> nat) \<Rightarrow> string \<Rightarrow> fetch_state \<Rightarrow> fetch_state option" where
  "fetchAllUsers_while env axios clock keyType s =
     (if morePages s
      then fetchAllUsers_while env axios clock keyType (fetchAllUsers_body env axios clock keyType s)
      else Some s)"

text \<open>
  \<open>fetchAllUsers(keyType = 'dev')\<close>: the accumulated users, with the requests issued.
  It has no way to throw: every error of a pass is caught inside the loop.
\<close>

definition fetchAllUsers ::
  "config \<Rightarrow> (nat \<Rightarrow> upstream) \<Rightarrow> (nat \<Rightarrow> nat) \<Rightarrow> string option
     \<Rightarrow> (json list \<times> axios_config list) option" where
  "fetchAllUsers env axios clock keyType_arg =
     (let keyType = default_param ''dev'' keyType_arg
      in map_option (\<lambda>s. (allUsers s, issued s))
           (fetchAllUsers_while env axios clock keyType
              \<lparr>allUsers = [], startingAfter = JNull, morePages = True, issued = []\<rparr>))"

section \<open>index.js\<close>

text \<open>
  What a handler sends: \<open>res.status(n).json(v)\<close>, with 200 where no status is set.
  Each handler below returns its reply with the upstream requests it caused. Path
  parameters are strings, a query parameter is a string or absent, and the parsed request
  body is an object, given by its members.
\<close>

datatype reply = Reply (reply_status: nat) (reply_body: json)

text \<open>\<open>error.response?.status\<close> and \<open>error.response?.data\<close>.\<close>

definition response_status :: "jserror \<Rightarrow> nat option" where
  "response_status error = map_option status (response error)"

definition response_details :: "jserror \<Rightarrow> json" where
  "response_details error = (case response error of None \<Rightarrow> JUndefined | Some r \<Rightarrow> response_data r)"

text \<open>
  The reply most \<open>catch\<close> blocks send:
  \<open>res.status(error.response?.status || 500).json({error: error.message, details: error.response?.data})\<close>.
\<close>

definition error_reply :: "jserror \<Rightarrow> reply" where
  "error_reply error =
     Reply (case response_status error of None \<Rightarrow> 500 | Some n \<Rightarrow> if n \<noteq> 0 then n else 500)
       (JObj [(''error'', JStr (message error)), (''details'', response_details error)])"

text \<open>
  The object literal \<open>{...v, k}\<close>: the own members of \<open>v\<close> (index keys for an array
  or a string, none for a number or a boolean), then \<open>k\<close> stored in place when present
  and at the end otherwise.
\<close>

fun spread :: "json \<Rightarrow> (string \<times> json) list" where
  "spread (JObj fs) = fs"
| "spread (JArr xs) = zip (map decimal [0..<length xs]) xs"
| "spread (JStr s) = zip (map decimal [0..<length s]) (map (\<lambda>c. JStr [c]) s)"
| "spread v = []"

fun set_member :: "(string \<times> json) list \<Rightarrow> string \<Rightarrow> json \<Rightarrow> (string \<times> json) list" where
  "set_member [] k v = [(k, v)]"
| "set_member ((k', v') # fs) k v = (if k' = k then (k, v) # fs else (k', v') # set_member fs k v)"

text \<open>
  The models \<open>Conversation\<close> and \<open>Message\<close> live in files this development does not
  have; their constructors are parameters, from the constructor's argument to the
  instance as \<open>res.json\<close> prints it.
\<close>

definition to_conversation :: "(json \<Rightarrow> json) \<Rightarrow> (json \<Rightarrow> json) \<Rightarrow> json \<Rightarrow> jserror + json" where
  "to_conversation Conversation Message conv =
     (case js_member conv ''lastMessage'' of
        Inl error \<Rightarrow> Inl error
      | Inr m \<Rightarrow>
          (let lastMessage = (if truthy m then Message m else JNull)
           in Inr (Conversation (JObj (set_member (spread conv) ''lastMessage'' lastMessage)))))"

text \<open>\<open>xs.map(f)\<close> with an \<open>f\<close> that may throw: the first error ends the walk.\<close>

fun map_throwing :: "('a \<Rightarrow> jserror + 'b) \<Rightarrow> 'a list \<Rightarrow> jserror + 'b list" where
  "map_throwing f [] = Inr []"
| "map_throwing f (x # xs) =
     (case f x of
        Inl error \<Rightarrow> Inl error
      | Inr y \<Rightarrow> (case map_throwing f xs of Inl error \<Rightarrow> Inl error | Inr ys \<Rightarrow> Inr (y # ys)))"

text \<open>\<open>GET /conversations\<close>. The handler calls the service with the endpoint alone.\<close>

definition get_conversations ::
  "config \<Rightarrow> (nat \<Rightarrow> upstream) \<Rightarrow> (nat \<Rightarrow> nat) \<Rightarrow> (json \<Rightarrow> json) \<Rightarrow> (json \<Rightarrow> json)
     \<Rightarrow> string option \<Rightarrow> reply \<times> axios_config list" where
  "get_conversations env axios clock Conversation Message query_keyType =
     (case callTalkJSApi env (axios 0) (clock 0) ''/conversations'' None None JUndefined of
        (Inl error, reqs) \<Rightarrow> (error_reply error, reqs)
      | (Inr d, reqs) \<Rightarrow>
          (case js_member d ''data'' of
             Inl error \<Rightarrow> (error_reply error, reqs)
           | Inr items \<Rightarrow>
               (case (if truthy items then items else JArr []) of
                  JArr convs \<Rightarrow>
                    (case map_throwing (to_conversation Conversation Message) convs of
                       Inl error \<Rightarrow> (error_reply error, reqs)
                     | Inr conversations \<Rightarrow> (Reply 200 (JObj [(''data'', JArr conversations)]), reqs))
                | _ \<Rightarrow> (error_reply TypeError, reqs))))"

text \<open>\<open>PUT /conversations/:conversationId/participants/:userId\<close>.\<close>

definition body_member :: "(string \<times> json) list \<Rightarrow> string \<Rightarrow> json" where
  "body_member body k = (case map_of body k of None \<Rightarrow> JUndefined | Some v \<Rightarrow> v)"

definition put_participant ::
  "config \<Rightarrow> (nat \<Rightarrow> upstream) \<Rightarrow> (nat \<Rightarrow> nat) \<Rightarrow> string \<Rightarrow> string \<Rightarrow> (string \<times> json) list
     \<Rightarrow> string option \<Rightarrow> reply \<times> axios_config list" where
  "put_participant env axios clock conversationId userId body keyType =
     (let access = body_member body ''access''; notify = body_member body ''notify''
      in case callTalkJSApi env (axios 0) (clock 0)
                (''/conversations/'' @ conversationId @ ''/participants/'' @ userId)
                (Some ''PUT'') keyType (JObj [(''access'', access), (''notify'', notify)]) of
           (Inl error, reqs) \<Rightarrow> (error_reply error, reqs)
         | (Inr talkjsResData, reqs) \<Rightarrow> (Reply 200 talkjsResData, reqs))"

text \<open>\<open>DELETE /conversations/:conversationId/participants/:userId\<close>.\<close>

definition delete_participant ::
  "config \<Rightarrow> (nat \<Rightarrow> upstream) \<Rightarrow> (nat \<Rightarrow> nat) \<Rightarrow> string \<Rightarrow> string \<Rightarrow> string option
     \<Rightarrow> reply \<times> axios_config list" where
  "delete_participant env axios clock conversationId userId keyType =
     (case callTalkJSApi env (axios 0) (clock 0)
             (''/conversations/'' @ conversationId @ ''/participants/'' @ userId)
             (Some ''DELETE'') keyType JUndefined of
        (Inl error, reqs) \<Rightarrow> (error_reply error, reqs)
      | (Inr talkjsResData, reqs) \<Rightarrow> (Reply 200 talkjsResData, reqs))"

text \<open>
  \<open>GET /conversations/:conversationId\<close>. \<open>typeof v === 'object'\<close> holds for objects
  and arrays (and null, which the test before it excludes). An instance is always truthy,
  so \<open>if (conversation)\<close> asks whether one was built. The two Spanish messages carry the
  letter o with acute accent, code point 243.
\<close>

definition not_found_message :: "string \<Rightarrow> string" where
  "not_found_message conversationId =
     ''Conversaci'' @ [CHR 0xF3] @ ''n con ID '' @ conversationId @ '' no encontrada.''"

definition is_object :: "json \<Rightarrow> bool" where
  "is_object v = (case v of JObj fs \<Rightarrow> True | JArr xs \<Rightarrow> True | JNull \<Rightarrow> True | _ \<Rightarrow> False)"

definition get_conversation_catch :: "string \<Rightarrow> jserror \<Rightarrow> reply" where
  "get_conversation_catch conversationId error =
     (if response_status error = Some 404
      then Reply 404 (JObj [(''error'', JStr (not_found_message conversationId))])
      else Reply 500 (JObj [(''error'', JStr (message error)), (''details'', response_details error)]))"

definition get_conversation ::
  "config \<Rightarrow> (nat \<Rightarrow> upstream) \<Rightarrow> (nat \<Rightarrow> nat) \<Rightarrow> (json \<Rightarrow> json) \<Rightarrow> (json \<Rightarrow> json)
     \<Rightarrow> string \<Rightarrow> string option \<Rightarrow> reply \<times> axios_config list" where
  "get_conversation env axios clock Conversation Message conversationId keyType =
     (case callTalkJSApi env (axios 0) (clock 0) (''/conversations/'' @ conversationId)
             (Some ''GET'') keyType JUndefined of
        (Inl error, reqs) \<Rightarrow> (get_conversation_catch conversationId error, reqs)
      | (Inr conversationData, reqs) \<Rightarrow>
          if truthy conversationData \<and> is_object conversationData
          then (case to_conversation Conversation Message conversationData of
                  Inl error \<Rightarrow> (get_conversation_catch conversationId error, reqs)
                | Inr conversation \<Rightarrow> (Reply 200 (JObj [(''data'', conversation)]), reqs))
          else (Reply 404 (JObj [(''error'', JStr (''Conversaci'' @ [CHR 0xF3]
                  @ ''n no encontrada o datos inv'' @ [CHR 0xE1] @ ''lidos.''))]), reqs))"

text \<open>\<open>GET /users/:userId/conversations\<close>.\<close>

definition get_user_conversations ::
  "config \<Rightarrow> (nat \<Rightarrow> upstream) \<Rightarrow> (nat \<Rightarrow> nat) \<Rightarrow> string \<Rightarrow> string option
     \<Rightarrow> reply \<times> axios_config list" where
  "get_user_conversations env axios clock userId keyType =
     (let catch = (\<lambda>error.
            if response_status error = Some 404
            then Reply 404 (JObj [(''error'', JStr (''Conversations for user with ID '' @ userId
                                                      @ '' not found.''))])
            else error_reply error)
      in case callTalkJSApi env (axios 0) (clock 0) (''/users/'' @ userId @ ''/conversations'')
                (Some ''GET'') keyType JUndefined of
           (Inl error, reqs) \<Rightarrow> (catch error, reqs)
         | (Inr d, reqs) \<Rightarrow>
             (case js_member d ''data'' of
                Inl error \<Rightarrow> (catch error, reqs)
              | Inr items \<Rightarrow>
                  (Reply 200 (JObj [(''conversations'', if truthy items then items else JArr [])]),
                   reqs)))"

text \<open>\<open>GET /v1/:appId/users/:userId\<close>: the path segment is passed on as the key type.\<close>

definition get_user ::
  "config \<Rightarrow> (nat \<Rightarrow> upstream) \<Rightarrow> (nat \<Rightarrow> nat) \<Rightarrow> string \<Rightarrow> string
     \<Rightarrow> reply \<times> axios_config list" where
  "get_user env axios clock appId userId =
     (case callTalkJSApi env (axios 0) (clock 0) (''/users/'' @ userId) (Some ''GET'') (Some appId)
             JUndefined of
        (Inl error, reqs) \<Rightarrow>
          (case response_status error of
             Some n \<Rightarrow>
               if n \<noteq> 0
               then (Reply n (JObj [(''error'', JStr (message error)),
                                    (''details'', response_details error)]), reqs)
               else (Reply 500 (JObj [(''error'', JStr (message error))]), reqs)
           | None \<Rightarrow> (Reply 500 (JObj [(''error'', JStr (message error))]), reqs))
      | (Inr userData, reqs) \<Rightarrow> (Reply 200 userData, reqs))"

text \<open>
  \<open>GET /users\<close>, with \<open>req.query.keyType || 'dev'\<close>. Nothing inside its \<open>try\<close>
  throws, \<open>fetchAllUsers\<close> having caught every error itself, so the \<open>catch\<close> of this
  handler has no part in the result. \<open>None\<close>: the loop never ended and no reply is sent.
\<close>

definition get_users ::
  "config \<Rightarrow> (nat \<Rightarrow> upstream) \<Rightarrow> (nat \<Rightarrow> nat) \<Rightarrow> string option
     \<Rightarrow> (reply \<times> axios_config list) option" where
  "get_users env axios clock query_keyType =
     (let keyType = (case query_keyType of
                       None \<Rightarrow> ''dev''
                     | Some k \<Rightarrow> if k \<noteq> [] then k else ''dev'')
      in case fetchAllUsers env axios clock (Some keyType) of
           None \<Rightarrow> None
         | Some (users, reqs) \<Rightarrow> Some (Reply 200 (JObj [(''users'', JArr users)]), reqs))"

section \<open>Notions the properties are stated with\<close>

text \<open>The upstream answers a request with the page \<open>p\<close> of user records.\<close>

definition page_of :: "jserror + axios_response \<Rightarrow> json list \<Rightarrow> bool" where
  "page_of r p =
     (case r of
        Inl error \<Rightarrow> False
      | Inr resp \<Rightarrow> status resp = 200 \<and> js_member (response_data resp) ''data'' = Inr (JArr p))"

text \<open>
  An answer within the page size the loop asks for (\<open>limit=100\<close>, the upstream
  maximum): whatever it carries as its page has at most 100 records.
\<close>

definition honours_limit :: "jserror + axios_response \<Rightarrow> bool" where
  "honours_limit r =
     (case r of
        Inl error \<Rightarrow> True
      | Inr resp \<Rightarrow>
          (case js_member (response_data resp) ''data'' of
             Inl error \<Rightarrow> True
           | Inr users \<Rightarrow> length (elements users) \<le> 100))"

text \<open>
  An answer that ends the pagination: a failing request (a rejection, a status other than
  200, a body without readable \<open>data\<close>), or a page of fewer than 100 records, the
  empty page among them.
\<close>

definition ends_paging :: "jserror + axios_response \<Rightarrow> bool" where
  "ends_paging r =
     (case r of
        Inl error \<Rightarrow> True
      | Inr resp \<Rightarrow>
          status resp \<noteq> 200
          \<or> (case js_member (response_data resp) ''data'' of
                Inl error \<Rightarrow> True
              | Inr users \<Rightarrow> length (elements users) < 100))"

text \<open>
  A request made with the credentials of the environment \<open>keyType\<close> selects: its token
  is issued for that application identifier and signed with that secret, and its URL
  addresses that application.
\<close>

definition uses_credentials :: "config \<Rightarrow> string \<Rightarrow> axios_config \<Rightarrow> bool" where
  "uses_credentials env keyType request =
     (Some (iss (authorization request)) = fst (credentials env keyType)
      \<and> Some (key (authorization request)) = snd (credentials env keyType)
      \<and> (\<exists>endpoint. url request = api_url env keyType endpoint))"

section \<open>Example inputs\<close>

text \<open>Environments: development credentials only, both pairs, nothing configured.\<close>

definition env_dev_only :: config where
  "env_dev_only =
     \<lparr>APP_ID_DEV = Some ''tDev'', SECRET_KEY_DEV = Some ''sk_dev'',
      APP_ID_PRO = None, SECRET_KEY_PRO = Some ''sk_pro''\<rparr>"

definition env_both :: config where
  "env_both =
     \<lparr>APP_ID_DEV = Some ''tDev'', SECRET_KEY_DEV = Some ''sk_dev'',
      APP_ID_PRO = Some ''tPro'', SECRET_KEY_PRO = Some ''sk_pro''\<rparr>"

definition env_unset :: config where
  "env_unset =
     \<lparr>APP_ID_DEV = None, SECRET_KEY_DEV = None, APP_ID_PRO = None, SECRET_KEY_PRO = None\<rparr>"

text \<open>A clock that stands at 1000, and the development token signed then.\<close>

definition clock_1000 :: "nat \<Rightarrow> nat" where
  "clock_1000 n = 1000"

definition dev_token :: token where
  "dev_token =
     \<lparr>payload = [(''tokenType'', JStr ''app'')], key = ''sk_dev'', iss = ''tDev'',
      iat = 1000, exp = 1030\<rparr>"

text \<open>Upstreams: one that answers every request with an empty object, one that answers
  every request with status 404, one that rejects without an answer.\<close>

definition upstream_empty_object :: "nat \<Rightarrow> upstream" where
  "upstream_empty_object n request = Inr \<lparr>status = 200, response_data = JObj []\<rparr>"

definition upstream_404 :: "nat \<Rightarrow> upstream" where
  "upstream_404 n request =
     Inl (Error ''Request failed with status code 404''
            (Some \<lparr>status = 404, response_data = JObj [(''errorCode'', JStr ''NOT_FOUND'')]\<rparr>))"

definition upstream_down :: "nat \<Rightarrow> upstream" where
  "upstream_down n request = Inl (Error ''Network Error'' None)"

text \<open>User records, and upstreams that answer the requests of the loop in order.\<close>

definition user :: "string \<Rightarrow> json" where
  "user i = JObj [(''id'', JStr i)]"

definition users_page :: "json list \<Rightarrow> jserror + axios_response" where
  "users_page p = Inr \<lparr>status = 200, response_data = JObj [(''data'', JArr p)]\<rparr>"

definition three_pages :: "nat \<Rightarrow> upstream" where
  "three_pages n request =
     (if n = 0 then users_page (replicate 100 (user ''a''))
      else if n = 1 then users_page (replicate 100 (user ''b''))
      else users_page (replicate 37 (user ''c'')))"

definition page_then_failure :: "nat \<Rightarrow> upstream" where
  "page_then_failure n request =
     (if n = 0 then users_page (replicate 100 (user ''a'')) else Inl (Error ''Network Error'' None))"

text \<open>A model constructor that keeps its argument as it is.\<close>

definition plain_model :: "json \<Rightarrow> json" where
  "plain_model v = v"

section \<open>The token minter\<close>

lemma timespan_30s: "timespan ''30s'' = Some 30"
  by (simp add: timespan_def is_digit_def digits_value_def unit_seconds_def)

lemma truthy_js_value: "truthy (js_value v) = (v \<noteq> None \<and> v \<noteq> Some [])"
  by (cases v) (simp_all add: js_value_def)

text \<open>\<open>generateToken\<close> with the library call and the guard written out.\<close>

lemma generateToken_eq:
  "generateToken env keyType now =
     (let k = default_param ''dev'' keyType in
      case credentials env k of
        (Some a, Some b) \<Rightarrow>
          if a = [] \<or> b = [] then Inl (keys_error k)
          else Inr \<lparr>payload = [(''tokenType'', JStr ''app'')], key = b, iss = a,
                    iat = now, exp = now + 30\<rparr>
      | _ \<Rightarrow> Inl (keys_error k))"
  by (auto simp add: generateToken_def Let_def jwt_sign_def timespan_30s js_value_def
      split: prod.splits option.splits)

text \<open>
  C2. \<open>generateToken(keyType)\<close> fails exactly when the application identifier or the
  secret key of the selected environment is undefined or empty; the only error it raises
  is the configuration error of line 25, and then there is no token; when both values
  are non-empty it returns a token.
\<close>

theorem generateToken_error_iff_missing:
  assumes "credentials env (default_param ''dev'' keyType) = (appId, secretKey)"
  shows "((\<exists>error. generateToken env keyType now = Inl error)
            = (appId = None \<or> appId = Some [] \<or> secretKey = None \<or> secretKey = Some []))
       \<and> (\<forall>error. generateToken env keyType now = Inl error
             \<longrightarrow> error = keys_error (default_param ''dev'' keyType))
       \<and> ((\<exists>t. generateToken env keyType now = Inr t)
            = (\<not> (appId = None \<or> appId = Some [] \<or> secretKey = None \<or> secretKey = Some [])))"
  using assms by (auto simp add: generateToken_eq Let_def split: option.splits)

theorem generateToken_error_iff_missing_witness:
  "credentials env_dev_only ''prod'' = (None, Some ''sk_pro'')
   \<and> generateToken env_dev_only (Some ''prod'') 1000 = Inl (keys_error ''prod'')
   \<and> credentials env_dev_only ''dev'' = (Some ''tDev'', Some ''sk_dev'')
   \<and> generateToken env_dev_only None 1000
       = Inr \<lparr>payload = [(''tokenType'', JStr ''app'')], key = ''sk_dev'', iss = ''tDev'',
              iat = 1000, exp = 1030\<rparr>"
proof -
  have p: "credentials env_dev_only (default_param ''dev'' (Some ''prod'')) = (None, Some ''sk_pro'')"
    by (simp add: credentials_def default_param_def env_dev_only_def)
  have d: "credentials env_dev_only (default_param ''dev'' None) = (Some ''tDev'', Some ''sk_dev'')"
    by (simp add: credentials_def default_param_def env_dev_only_def)
  from generateToken_error_iff_missing [OF p, of 1000]
  have 1: "generateToken env_dev_only (Some ''prod'') 1000 = Inl (keys_error ''prod'')"
    by (auto simp add: default_param_def)
  from generateToken_error_iff_missing [OF d, of 1000]
  obtain t where t: "generateToken env_dev_only None 1000 = Inr t"
    by auto
  have 2: "generateToken env_dev_only None 1000
             = Inr \<lparr>payload = [(''tokenType'', JStr ''app'')], key = ''sk_dev'', iss = ''tDev'',
                    iat = 1000, exp = 1030\<rparr>"
    using t by (simp add: default_param_def generateToken_eq env_dev_only_def credentials_def)
  show ?thesis
    using p d 1 2 by (simp add: default_param_def)
qed

text \<open>
  C3. A token returned by \<open>generateToken(keyType)\<close> has the application identifier of
  the selected environment as its issuer, is signed with that environment's secret,
  carries the payload \<open>{tokenType: 'app'}\<close>, and expires exactly 30 seconds after the
  time it was issued, which is the time of the call.
\<close>

theorem generateToken_claims:
  assumes "generateToken env keyType now = Inr t"
  shows "Some (iss t) = fst (credentials env (default_param ''dev'' keyType))
       \<and> Some (key t) = snd (credentials env (default_param ''dev'' keyType))
       \<and> payload t = [(''tokenType'', JStr ''app'')]
       \<and> iat t = now \<and> exp t = iat t + 30"
  using assms
  by (auto simp add: generateToken_eq Let_def split: option.splits prod.splits if_splits)

theorem generateToken_claims_witness:
  "generateToken env_dev_only (Some ''staging'') 1000
     = Inr \<lparr>payload = [(''tokenType'', JStr ''app'')], key = ''sk_dev'', iss = ''tDev'',
            iat = 1000, exp = 1030\<rparr>
   \<and> Some ''tDev'' = fst (credentials env_dev_only ''staging'')
   \<and> Some ''sk_dev'' = snd (credentials env_dev_only ''staging'')"
proof -
  let ?t = "\<lparr>payload = [(''tokenType'', JStr ''app'')], key = ''sk_dev'', iss = ''tDev'',
             iat = 1000, exp = 1030\<rparr>"
  have g: "generateToken env_dev_only (Some ''staging'') 1000 = Inr ?t"
    by (simp add: default_param_def generateToken_eq env_dev_only_def credentials_def)
  from generateToken_claims [OF g] g show ?thesis
    by (simp add: default_param_def)
qed

section \<open>Key types other than dev and prod\<close>

text \<open>
  C1, as stated, fails where the development credentials are missing: the error raised
  for the key type \<open>staging\<close> is not the error raised for \<open>dev\<close>, because the
  message of line 25 spells the key type out.
\<close>

theorem keyType_fallback_counterexample:
  "generateToken env_unset (Some ''staging'') 1000
     = Inl (Error ''API keys not configured for staging environment.'' None)
   \<and> generateToken env_unset (Some ''dev'') 1000
     = Inl (Error ''API keys not configured for dev environment.'' None)
   \<and> generateToken env_unset (Some ''staging'') 1000 \<noteq> generateToken env_unset (Some ''dev'') 1000"
  by (simp add: generateToken_eq default_param_def credentials_def env_unset_def keys_error_def)

text \<open>
  C1, amended. For a key type other than \<open>dev\<close> and \<open>prod\<close> (undefined included)
  the credential pair and the upstream URL are those of \<open>dev\<close>; \<open>generateToken\<close>
  returns the token it returns for \<open>dev\<close>, and \<open>callTalkJSApi\<close> then issues the same
  request with the same result; where \<open>dev\<close> fails, both fail with the configuration
  error before any request, the message naming the key type that was passed.
\<close>

theorem keyType_fallback:
  assumes "keyType \<notin> {Some ''dev'', Some ''prod''}"
  shows "credentials env (default_param ''dev'' keyType) = credentials env ''dev''
       \<and> api_url env (default_param ''dev'' keyType) endpoint = api_url env ''dev'' endpoint
       \<and> generateToken env keyType now
           = (case generateToken env (Some ''dev'') now of
                Inl error \<Rightarrow> Inl (keys_error (default_param ''dev'' keyType))
              | Inr t \<Rightarrow> Inr t)
       \<and> callTalkJSApi env axios now endpoint method_arg keyType data_arg
           = (case generateToken env (Some ''dev'') now of
                Inl error \<Rightarrow> (Inl (keys_error (default_param ''dev'' keyType)), [])
              | Inr t \<Rightarrow> callTalkJSApi env axios now endpoint method_arg (Some ''dev'') data_arg)"
proof -
  have k: "default_param ''dev'' keyType \<noteq> ''prod''"
    using assms by (cases keyType) (simp_all add: default_param_def)
  have c: "credentials env (default_param ''dev'' keyType) = credentials env ''dev''"
    using k by (simp add: credentials_def)
  have u: "api_url env (default_param ''dev'' keyType) endpoint = api_url env ''dev'' endpoint"
    using k by (simp add: api_url_def appIdToUse_def)
  have g: "generateToken env keyType now
           = (case generateToken env (Some ''dev'') now of
                Inl error \<Rightarrow> Inl (keys_error (default_param ''dev'' keyType))
              | Inr t \<Rightarrow> Inr t)"
    using c by (simp add: generateToken_eq Let_def default_param_def split: option.splits prod.splits)
  have g': "generateToken env (Some (default_param ''dev'' keyType)) now = generateToken env keyType now"
    by (simp add: generateToken_eq default_param_def)
  have a: "callTalkJSApi env axios now endpoint method_arg keyType data_arg
           = (case generateToken env (Some ''dev'') now of
                Inl error \<Rightarrow> (Inl (keys_error (default_param ''dev'' keyType)), [])
              | Inr t \<Rightarrow> callTalkJSApi env axios now endpoint method_arg (Some ''dev'') data_arg)"
    unfolding callTalkJSApi_def Let_def g' u
    by (simp add: g default_param_def split: sum.splits)
  show ?thesis using c u g a by simp
qed

theorem keyType_fallback_witness:
  "Some ''staging'' \<notin> {Some ''dev'', Some ''prod''}
   \<and> generateToken env_dev_only (Some ''staging'') 1000 = Inr dev_token
   \<and> generateToken env_dev_only (Some ''dev'') 1000 = Inr dev_token
   \<and> callTalkJSApi env_dev_only (upstream_empty_object 0) 1000 ''/conversations'' None
        (Some ''staging'') JUndefined
      = callTalkJSApi env_dev_only (upstream_empty_object 0) 1000 ''/conversations'' None
        (Some ''dev'') JUndefined
   \<and> fst (callTalkJSApi env_dev_only (upstream_empty_object 0) 1000 ''/conversations'' None
        (Some ''staging'') JUndefined) = Inr (JObj [])"
proof -
  have h: "Some ''staging'' \<notin> {Some ''dev'', Some ''prod''}" by simp
  have d: "generateToken env_dev_only (Some ''dev'') 1000 = Inr dev_token"
    by (simp add: generateToken_eq default_param_def credentials_def env_dev_only_def dev_token_def)
  have r: "fst (callTalkJSApi env_dev_only (upstream_empty_object 0) 1000 ''/conversations'' None
        (Some ''dev'') JUndefined) = Inr (JObj [])"
    by (simp add: callTalkJSApi_def Let_def default_param_def d upstream_empty_object_def)
  from keyType_fallback [OF h, where env = env_dev_only and now = 1000
      and endpoint = "''/conversations''" and axios = "upstream_empty_object 0"
      and method_arg = None and data_arg = JUndefined] d r h
  show ?thesis
    by simp
qed

section \<open>The pagination loop\<close>

lemma fetchUsersPage_Inr:
  assumes "fetchUsersPage env ax now limit cursor (Some keyType) = (Inr users, reqs)"
  shows "\<exists>t resp. generateToken env (Some keyType) now = Inr t
           \<and> reqs = [users_request env keyType limit (if cursor = JUndefined then JNull else cursor) t]
           \<and> ax (users_request env keyType limit (if cursor = JUndefined then JNull else cursor) t) = Inr resp
           \<and> status resp = 200
           \<and> js_member (response_data resp) ''data'' = Inr users"
  using assms
  by (auto simp add: fetchUsersPage_def Let_def default_param_def split: sum.splits if_splits)

lemma fetchUsersPage_length:
  "length (snd (fetchUsersPage env ax now limit cursor keyType)) \<le> 1"
  by (auto simp add: fetchUsersPage_def Let_def split: sum.splits if_splits)

text \<open>A pass that leaves \<open>morePages\<close> set has read a page of at least 100 elements.\<close>

lemma body_continues:
  assumes "morePages (fetchAllUsers_body env axios clock keyType s)"
  shows "\<exists>users req i.
           fetchUsersPage env (axios (length (issued s))) (clock (length (issued s))) 100
               (startingAfter s) (Some keyType) = (Inr users, [req])
           \<and> 100 \<le> length (elements users)
           \<and> js_member (last (elements users)) ''id'' = Inr i
           \<and> fetchAllUsers_body env axios clock keyType s
               = s\<lparr>allUsers := allUsers s @ elements users, startingAfter := i,
                    issued := issued s @ [req]\<rparr>"
proof (cases "fetchUsersPage env (axios (length (issued s))) (clock (length (issued s))) 100
               (startingAfter s) (Some keyType)")
  case (Pair r reqs)
  show ?thesis
  proof (cases r)
    case (Inl e)
    with Pair assms show ?thesis by (simp add: fetchAllUsers_body_def Let_def)
  next
    case (Inr users)
    from fetchUsersPage_Inr [OF Pair [unfolded Inr]] obtain req where req: "reqs = [req]" by blast
    with Pair Inr assms show ?thesis
      by (auto simp add: fetchAllUsers_body_def Let_def split: sum.splits if_splits)
  qed
qed

lemma body_stops_eq:
  assumes "fetchUsersPage env (axios (length (issued s))) (clock (length (issued s))) 100
               (startingAfter s) (Some keyType) = (Inl error, reqs)"
  shows "fetchAllUsers_body env axios clock keyType s = s\<lparr>morePages := False, issued := issued s @ reqs\<rparr>"
  using assms by (simp add: fetchAllUsers_body_def Let_def)

lemma body_page_eq:
  assumes "fetchUsersPage env (axios (length (issued s))) (clock (length (issued s))) 100
               (startingAfter s) (Some keyType) = (Inr users, reqs)"
    and "elements users \<noteq> []"
    and "js_member (last (elements users)) ''id'' = Inr i"
  shows "fetchAllUsers_body env axios clock keyType s
           = s\<lparr>allUsers := allUsers s @ elements users, startingAfter := i,
                morePages := (if length (elements users) < 100 then False else morePages s), 
                issued := issued s @ reqs\<rparr>"
  using assms by (simp add: fetchAllUsers_body_def Let_def)

lemma body_at_end:
  assumes "\<forall>req. ends_paging (axios (length (issued s)) req)"
  shows "\<not> morePages (fetchAllUsers_body env axios clock keyType s)"
proof
  assume "morePages (fetchAllUsers_body env axios clock keyType s)"
  from body_continues [OF this] obtain users req where
    p: "fetchUsersPage env (axios (length (issued s))) (clock (length (issued s))) 100
               (startingAfter s) (Some keyType) = (Inr users, [req])"
    and l: "100 \<le> length (elements users)" by blast
  from fetchUsersPage_Inr [OF p] obtain rq resp where
    "axios (length (issued s)) rq = Inr resp" "status resp = 200"
    "js_member (response_data resp) ''data'' = Inr users" by blast
  with assms [rule_format, of rq] l show False by (simp add: ends_paging_def)
qed

lemma while_terminates:
  assumes "\<forall>req. ends_paging (axios k req)" and "length (issued s) \<le> k"
  shows "\<exists>s'. fetchAllUsers_while env axios clock keyType s = Some s'
              \<and> \<not> morePages s' \<and> length (issued s') \<le> Suc k"
  using assms(2)
proof (induction "k - length (issued s)" arbitrary: s rule: less_induct)
  case less
  show ?case
  proof (cases "morePages s")
    case False
    with less.prems show ?thesis by (subst fetchAllUsers_while.simps) simp
  next
    case True
    let ?b = "fetchAllUsers_body env axios clock keyType s"
    have w: "fetchAllUsers_while env axios clock keyType s = fetchAllUsers_while env axios clock keyType ?b"
      using True by (subst fetchAllUsers_while.simps) simp
    show ?thesis
    proof (cases "morePages ?b")
      case False
      have "length (issued ?b) \<le> Suc (length (issued s))"
        using fetchUsersPage_length [of env "axios (length (issued s))" "clock (length (issued s))" 100 "startingAfter s" "Some keyType"]
        by (auto simp add: fetchAllUsers_body_def Let_def split: sum.splits prod.splits if_splits)
      with less.prems have "length (issued ?b) \<le> Suc k" by simp
      moreover have "fetchAllUsers_while env axios clock keyType ?b = Some ?b"
        using False by (subst fetchAllUsers_while.simps) simp
      ultimately show ?thesis using w False by simp
    next
      case mp: True
      from body_continues [OF mp] have len: "length (issued ?b) = Suc (length (issued s))"
        by auto
      have "length (issued s) \<noteq> k"
        using body_at_end [of axios s env clock keyType] assms(1) mp by auto
      with less.prems have lt: "length (issued s) < k" by simp
      have "\<exists>s'. fetchAllUsers_while env axios clock keyType ?b = Some s'
              \<and> \<not> morePages s' \<and> length (issued s') \<le> Suc k"
        by (rule less.hyps) (use len lt in simp_all)
      with w show ?thesis by simp
    qed
  qed
qed


lemma users_request_undefined:
  "users_request env keyType limit (if cursor = JUndefined then JNull else cursor) t
     = users_request env keyType limit cursor t"
  by (simp add: users_request_def users_url_def Let_def)

lemma fetchUsersPage_page:
  assumes "generateToken env (Some keyType) now = Inr t"
    and "page_of (ax (users_request env keyType limit cursor t)) p"
  shows "fetchUsersPage env ax now limit cursor (Some keyType)
           = (Inr (JArr p), [users_request env keyType limit cursor t])"
  using assms
  unfolding fetchUsersPage_def Let_def users_request_undefined
  by (auto simp add: default_param_def page_of_def split: sum.splits)

lemma while_stopped:
  "\<not> morePages s \<Longrightarrow> fetchAllUsers_while env axios clock keyType s = Some s"
  by (subst fetchAllUsers_while.simps) simp

lemma while_step:
  "morePages s \<Longrightarrow> fetchAllUsers_while env axios clock keyType s
     = fetchAllUsers_while env axios clock keyType (fetchAllUsers_body env axios clock keyType s)"
  by (subst fetchAllUsers_while.simps) simp

lemma decimal_100: "decimal 100 = ''100''"
  by code_simp

lemma generateToken_dev_token:
  "generateToken env_dev_only (Some ''dev'') (clock_1000 n) = Inr dev_token"
  by (simp add: generateToken_eq default_param_def credentials_def env_dev_only_def
      dev_token_def clock_1000_def)

lemma page_of_users_page: "page_of (users_page p) p"
  by (simp add: page_of_def users_page_def)

lemma member_id_user: "js_member (user i) ''id'' = Inr (JStr i)"
  by (simp add: user_def)

text \<open>The passes of the loop, from what \<open>fetchUsersPage\<close> returned.\<close>

lemma fetchUsersPage_url:
  assumes "fetchUsersPage env ax now limit cursor (Some keyType) = (Inr users, reqs)"
  shows "map url reqs = [users_url env keyType limit cursor] \<and> length reqs = 1"
proof -
  from fetchUsersPage_Inr [OF assms] obtain t where
    "reqs = [users_request env keyType limit (if cursor = JUndefined then JNull else cursor) t]"
    by blast
  then show ?thesis
    unfolding users_request_undefined by (simp add: users_request_def)
qed

lemma body_fetched:
  assumes "length (issued s) = n"
    and "fetchUsersPage env (axios n) (clock n) 100 (startingAfter s) (Some keyType)
           = (Inr (JArr p), reqs)"
    and "length p = 100"
    and "js_member (last p) ''id'' = Inr i"
  shows "fetchAllUsers_body env axios clock keyType s
           = s\<lparr>allUsers := allUsers s @ p, startingAfter := i, issued := issued s @ reqs\<rparr>"
proof -
  have "p \<noteq> []" using assms(3) by auto
  with assms show ?thesis
    by (simp add: fetchAllUsers_body_def Let_def)
qed

lemma body_last_fetched:
  assumes "length (issued s) = n"
    and "fetchUsersPage env (axios n) (clock n) 100 (startingAfter s) (Some keyType)
           = (Inr (JArr p), reqs)"
    and "length p < 100"
  shows "\<not> morePages (fetchAllUsers_body env axios clock keyType s)
       \<and> allUsers (fetchAllUsers_body env axios clock keyType s) = allUsers s @ p
       \<and> issued (fetchAllUsers_body env axios clock keyType s) = issued s @ reqs"
  using assms
  by (auto simp add: fetchAllUsers_body_def Let_def split: sum.splits)

lemma three_pages_fetched:
  assumes p1: "fetchUsersPage env (axios 0) (clock 0) 100 JNull (Some keyType)
                 = (Inr (JArr p1), reqs1)"
      "length p1 = 100" "js_member (last p1) ''id'' = Inr i1"
    and p2: "fetchUsersPage env (axios 1) (clock 1) 100 i1 (Some keyType)
                 = (Inr (JArr p2), reqs2)"
      "length p2 = 100" "js_member (last p2) ''id'' = Inr i2"
    and p3: "fetchUsersPage env (axios 2) (clock 2) 100 i2 (Some keyType)
                 = (Inr (JArr p3), reqs3)"
      "length p3 = 37"
  shows "fetchAllUsers env axios clock (Some keyType)
           = Some (p1 @ p2 @ p3, reqs1 @ reqs2 @ reqs3)"
proof -
  let ?s0 = "\<lparr>allUsers = [], startingAfter = JNull, morePages = True, issued = []\<rparr>"
  let ?s1 = "\<lparr>allUsers = p1, startingAfter = i1, morePages = True, issued = reqs1\<rparr>"
  let ?s2 = "\<lparr>allUsers = p1 @ p2, startingAfter = i2, morePages = True,
              issued = reqs1 @ reqs2\<rparr>"
  let ?W = "fetchAllUsers_while env axios clock keyType"
  let ?B = "fetchAllUsers_body env axios clock keyType"
  have l1: "length reqs1 = 1" using fetchUsersPage_url [OF p1(1)] by simp
  have l2: "length reqs2 = 1" using fetchUsersPage_url [OF p2(1)] by simp
  have b0: "?B ?s0 = ?s1"
    using body_fetched [of ?s0 0 env axios clock keyType p1 reqs1 i1] p1 by simp
  have b1: "?B ?s1 = ?s2"
    using body_fetched [of ?s1 1 env axios clock keyType p2 reqs2 i2] p2 l1 by simp
  have b2: "\<not> morePages (?B ?s2) \<and> allUsers (?B ?s2) = (p1 @ p2) @ p3
              \<and> issued (?B ?s2) = (reqs1 @ reqs2) @ reqs3"
    using body_last_fetched [of ?s2 2 env axios clock keyType p3 reqs3] p3 l1 l2 by simp
  have "?W ?s0 = ?W ?s1" using while_step [of ?s0 env axios clock keyType] b0 by simp
  also have "\<dots> = ?W ?s2" using while_step [of ?s1 env axios clock keyType] b1 by simp
  also have "\<dots> = ?W (?B ?s2)" using while_step [of ?s2 env axios clock keyType] by simp
  also have "\<dots> = Some (?B ?s2)" using while_stopped b2 by blast
  finally show ?thesis using b2 by (simp add: fetchAllUsers_def default_param_def)
qed

text \<open>Under the page size, a pass that leaves \<open>morePages\<close> set has read exactly 100 records.\<close>

lemma body_continues_full:
  assumes "\<forall>n request. honours_limit (axios n request)"
    and "morePages (fetchAllUsers_body env axios clock keyType s)"
  shows "\<exists>users req i.
           fetchUsersPage env (axios (length (issued s))) (clock (length (issued s))) 100
               (startingAfter s) (Some keyType) = (Inr users, [req])
           \<and> length (elements users) = 100
           \<and> js_member (last (elements users)) ''id'' = Inr i
           \<and> fetchAllUsers_body env axios clock keyType s
               = s\<lparr>allUsers := allUsers s @ elements users, startingAfter := i,
                    issued := issued s @ [req]\<rparr>"
proof -
  from body_continues [OF assms(2)] obtain users req i where
    p: "fetchUsersPage env (axios (length (issued s))) (clock (length (issued s))) 100
               (startingAfter s) (Some keyType) = (Inr users, [req])"
    and l: "100 \<le> length (elements users)"
    and r: "js_member (last (elements users)) ''id'' = Inr i
           \<and> fetchAllUsers_body env axios clock keyType s
               = s\<lparr>allUsers := allUsers s @ elements users, startingAfter := i,
                    issued := issued s @ [req]\<rparr>"
    by blast
  from fetchUsersPage_Inr [OF p] obtain rq resp where
    "axios (length (issued s)) rq = Inr resp"
    "js_member (response_data resp) ''data'' = Inr users" by blast
  with assms(1) [rule_format, of "length (issued s)" rq]
  have "length (elements users) \<le> 100" by (simp add: honours_limit_def)
  with l have "length (elements users) = 100" by simp
  with p r show ?thesis by blast
qed

text \<open>
  C4. The upstream honours the page size: no answer carries more than 100 records. After
  a pass the loop goes on to a further page only if the page just read had exactly 100
  records; those records are then appended in order, one request was added, and the
  cursor of the next request is the \<open>id\<close> of the last record. When the three page
  requests of the loop return pages of 100, 100 and 37 records, the result is the three
  pages concatenated in order, 237 records, and the requests issued are exactly those
  three, the second and the third with the \<open>id\<close> of the last record before as cursor:
  none follows the short page.
\<close>

theorem fetchAllUsers_pagination:
  "((\<forall>n request. honours_limit (axios n request))
      \<and> morePages (fetchAllUsers_body env axios clock keyType s)
     \<longrightarrow> (\<exists>users req i.
            fetchUsersPage env (axios (length (issued s))) (clock (length (issued s))) 100
                (startingAfter s) (Some keyType) = (Inr users, [req])
            \<and> length (elements users) = 100
            \<and> js_member (last (elements users)) ''id'' = Inr i
            \<and> fetchAllUsers_body env axios clock keyType s
                = s\<lparr>allUsers := allUsers s @ elements users, startingAfter := i,
                     issued := issued s @ [req]\<rparr>))
   \<and> (fetchUsersPage env (axios 0) (clock 0) 100 JNull (Some keyType) = (Inr (JArr p1), reqs1)
        \<and> length p1 = 100 \<and> js_member (last p1) ''id'' = Inr i1
        \<and> fetchUsersPage env (axios 1) (clock 1) 100 i1 (Some keyType) = (Inr (JArr p2), reqs2)
        \<and> length p2 = 100 \<and> js_member (last p2) ''id'' = Inr i2
        \<and> fetchUsersPage env (axios 2) (clock 2) 100 i2 (Some keyType) = (Inr (JArr p3), reqs3)
        \<and> length p3 = 37
       \<longrightarrow> fetchAllUsers env axios clock (Some keyType)
             = Some (p1 @ p2 @ p3, reqs1 @ reqs2 @ reqs3)
           \<and> length (p1 @ p2 @ p3) = 237
           \<and> map url (reqs1 @ reqs2 @ reqs3)
               = [users_url env keyType 100 JNull, users_url env keyType 100 i1,
                  users_url env keyType 100 i2])"
proof (intro conjI impI)
  assume "(\<forall>n request. honours_limit (axios n request))
      \<and> morePages (fetchAllUsers_body env axios clock keyType s)"
  then show "\<exists>users req i.
            fetchUsersPage env (axios (length (issued s))) (clock (length (issued s))) 100
                (startingAfter s) (Some keyType) = (Inr users, [req])
            \<and> length (elements users) = 100
            \<and> js_member (last (elements users)) ''id'' = Inr i
            \<and> fetchAllUsers_body env axios clock keyType s
                = s\<lparr>allUsers := allUsers s @ elements users, startingAfter := i,
                     issued := issued s @ [req]\<rparr>"
    by (intro body_continues_full) simp_all
next
  assume a: "fetchUsersPage env (axios 0) (clock 0) 100 JNull (Some keyType) = (Inr (JArr p1), reqs1)
        \<and> length p1 = 100 \<and> js_member (last p1) ''id'' = Inr i1
        \<and> fetchUsersPage env (axios 1) (clock 1) 100 i1 (Some keyType) = (Inr (JArr p2), reqs2)
        \<and> length p2 = 100 \<and> js_member (last p2) ''id'' = Inr i2
        \<and> fetchUsersPage env (axios 2) (clock 2) 100 i2 (Some keyType) = (Inr (JArr p3), reqs3)
        \<and> length p3 = 37"
  then have f1: "fetchUsersPage env (axios 0) (clock 0) 100 JNull (Some keyType)
                    = (Inr (JArr p1), reqs1)"
    and l1: "length p1 = 100" and m1: "js_member (last p1) ''id'' = Inr i1"
    and f2: "fetchUsersPage env (axios 1) (clock 1) 100 i1 (Some keyType)
               = (Inr (JArr p2), reqs2)"
    and l2: "length p2 = 100" and m2: "js_member (last p2) ''id'' = Inr i2"
    and f3: "fetchUsersPage env (axios 2) (clock 2) 100 i2 (Some keyType)
               = (Inr (JArr p3), reqs3)"
    and l3: "length p3 = 37"
    by blast+
  show "fetchAllUsers env axios clock (Some keyType)
             = Some (p1 @ p2 @ p3, reqs1 @ reqs2 @ reqs3)"
    using f1 l1 m1 f2 l2 m2 f3 l3 by (rule three_pages_fetched)
  show "length (p1 @ p2 @ p3) = 237" using l1 l2 l3 by simp
  have "map url reqs1 = [users_url env keyType 100 JNull]"
    and "map url reqs2 = [users_url env keyType 100 i1]"
    and "map url reqs3 = [users_url env keyType 100 i2]"
    using fetchUsersPage_url [OF f1] fetchUsersPage_url [OF f2] fetchUsersPage_url [OF f3]
    by blast+
  then show "map url (reqs1 @ reqs2 @ reqs3)
               = [users_url env keyType 100 JNull, users_url env keyType 100 i1,
                  users_url env keyType 100 i2]"
    by simp
qed

theorem fetchAllUsers_pagination_witness:
  "(\<forall>n request. honours_limit (three_pages n request))
   \<and> fetchAllUsers_body env_dev_only three_pages clock_1000 ''dev''
        \<lparr>allUsers = [], startingAfter = JNull, morePages = True, issued = []\<rparr>
       = \<lparr>allUsers = replicate 100 (user ''a''), startingAfter = JStr ''a'', morePages = True,
          issued = [users_request env_dev_only ''dev'' 100 JNull dev_token]\<rparr>
   \<and> fetchUsersPage env_dev_only (three_pages 0) (clock_1000 0) 100 JNull (Some ''dev'')
       = (Inr (JArr (replicate 100 (user ''a''))),
          [users_request env_dev_only ''dev'' 100 JNull dev_token])
   \<and> fetchUsersPage env_dev_only (three_pages 1) (clock_1000 1) 100 (JStr ''a'') (Some ''dev'')
       = (Inr (JArr (replicate 100 (user ''b''))),
          [users_request env_dev_only ''dev'' 100 (JStr ''a'') dev_token])
   \<and> fetchUsersPage env_dev_only (three_pages 2) (clock_1000 2) 100 (JStr ''b'') (Some ''dev'')
       = (Inr (JArr (replicate 37 (user ''c''))),
          [users_request env_dev_only ''dev'' 100 (JStr ''b'') dev_token])
   \<and> fetchAllUsers env_dev_only three_pages clock_1000 (Some ''dev'')
       = Some (replicate 100 (user ''a'') @ replicate 100 (user ''b'') @ replicate 37 (user ''c''),
               [users_request env_dev_only ''dev'' 100 JNull dev_token,
                users_request env_dev_only ''dev'' 100 (JStr ''a'') dev_token,
                users_request env_dev_only ''dev'' 100 (JStr ''b'') dev_token])
   \<and> map url [users_request env_dev_only ''dev'' 100 JNull dev_token,
               users_request env_dev_only ''dev'' 100 (JStr ''a'') dev_token,
               users_request env_dev_only ''dev'' 100 (JStr ''b'') dev_token]
       = [''https://api.talkjs.com/v1/tDev/users?limit=100'',
          ''https://api.talkjs.com/v1/tDev/users?limit=100&startingAfter=a'',
          ''https://api.talkjs.com/v1/tDev/users?limit=100&startingAfter=b'']"
proof -
  let ?s0 = "\<lparr>allUsers = [], startingAfter = JNull, morePages = True, issued = []\<rparr>"
  have h: "\<forall>n request. honours_limit (three_pages n request)"
    by (simp add: honours_limit_def three_pages_def users_page_def)
  have a: "fetchUsersPage env_dev_only (three_pages 0) (clock_1000 0) 100 JNull (Some ''dev'')
       = (Inr (JArr (replicate 100 (user ''a''))),
          [users_request env_dev_only ''dev'' 100 JNull dev_token])"
    by (rule fetchUsersPage_page)
       (simp_all add: generateToken_dev_token three_pages_def page_of_users_page)
  have b: "fetchUsersPage env_dev_only (three_pages 1) (clock_1000 1) 100 (JStr ''a'') (Some ''dev'')
       = (Inr (JArr (replicate 100 (user ''b''))),
          [users_request env_dev_only ''dev'' 100 (JStr ''a'') dev_token])"
    by (rule fetchUsersPage_page)
       (simp_all add: generateToken_dev_token three_pages_def page_of_users_page)
  have c: "fetchUsersPage env_dev_only (three_pages 2) (clock_1000 2) 100 (JStr ''b'') (Some ''dev'')
       = (Inr (JArr (replicate 37 (user ''c''))),
          [users_request env_dev_only ''dev'' 100 (JStr ''b'') dev_token])"
    by (rule fetchUsersPage_page)
       (simp_all add: generateToken_dev_token three_pages_def page_of_users_page)
  have s1: "fetchAllUsers_body env_dev_only three_pages clock_1000 ''dev'' ?s0
       = \<lparr>allUsers = replicate 100 (user ''a''), startingAfter = JStr ''a'', morePages = True,
          issued = [users_request env_dev_only ''dev'' 100 JNull dev_token]\<rparr>"
    using body_fetched [of ?s0 0 env_dev_only three_pages clock_1000 "''dev''"
        "replicate 100 (user ''a'')" "[users_request env_dev_only ''dev'' 100 JNull dev_token]"
        "JStr ''a''"] a
    by (simp add: member_id_user)
  have u: "map url [users_request env_dev_only ''dev'' 100 JNull dev_token,
               users_request env_dev_only ''dev'' 100 (JStr ''a'') dev_token,
               users_request env_dev_only ''dev'' 100 (JStr ''b'') dev_token]
       = [''https://api.talkjs.com/v1/tDev/users?limit=100'',
          ''https://api.talkjs.com/v1/tDev/users?limit=100&startingAfter=a'',
          ''https://api.talkjs.com/v1/tDev/users?limit=100&startingAfter=b'']"
    by (simp add: users_request_def users_url_def Let_def decimal_100 appIdToUse_def
        env_dev_only_def js_value_def)
  have "fetchAllUsers env_dev_only three_pages clock_1000 (Some ''dev'')
       = Some (replicate 100 (user ''a'') @ replicate 100 (user ''b'') @ replicate 37 (user ''c''),
               [users_request env_dev_only ''dev'' 100 JNull dev_token,
                users_request env_dev_only ''dev'' 100 (JStr ''a'') dev_token,
                users_request env_dev_only ''dev'' 100 (JStr ''b'') dev_token])"
    using fetchAllUsers_pagination [where env = env_dev_only and keyType = "''dev''"
        and clock = clock_1000 and axios = three_pages
        and ?p1.0 = "replicate 100 (user ''a'')" and ?i1.0 = "JStr ''a''"
        and ?p2.0 = "replicate 100 (user ''b'')" and ?i2.0 = "JStr ''b''"
        and ?p3.0 = "replicate 37 (user ''c'')"
        and ?reqs1.0 = "[users_request env_dev_only ''dev'' 100 JNull dev_token]"
        and ?reqs2.0 = "[users_request env_dev_only ''dev'' 100 (JStr ''a'') dev_token]"
        and ?reqs3.0 = "[users_request env_dev_only ''dev'' 100 (JStr ''b'') dev_token]"] a b c
    by (simp add: member_id_user)
  with h s1 a b c u show ?thesis by blast
qed

text \<open>
  C5. When the page request of a pass fails (\<open>fetchUsersPage\<close> throws, whatever the
  reason), the loop ends with the records accumulated so far: no error leaves
  \<open>fetchAllUsers\<close>. In particular, when the first page comes back full and the second
  page request fails, the result is exactly the records of the first page.
\<close>

theorem fetchAllUsers_partial_result:
  "(morePages s
      \<and> fetchUsersPage env (axios (length (issued s))) (clock (length (issued s))) 100
            (startingAfter s) (Some keyType) = (Inl error, reqs)
     \<longrightarrow> fetchAllUsers_while env axios clock keyType s
           = Some (s\<lparr>morePages := False, issued := issued s @ reqs\<rparr>))
   \<and> (fetchUsersPage env (axios 0) (clock 0) 100 JNull (Some keyType) = (Inr (JArr p1), reqs1)
        \<and> length p1 = 100 \<and> js_member (last p1) ''id'' = Inr i1
        \<and> fetchUsersPage env (axios 1) (clock 1) 100 i1 (Some keyType) = (Inl error, reqs2)
       \<longrightarrow> fetchAllUsers env axios clock (Some keyType) = Some (p1, reqs1 @ reqs2))"
proof (intro conjI impI)
  assume a: "morePages s
      \<and> fetchUsersPage env (axios (length (issued s))) (clock (length (issued s))) 100
            (startingAfter s) (Some keyType) = (Inl error, reqs)"
  then have "fetchAllUsers_body env axios clock keyType s
               = s\<lparr>morePages := False, issued := issued s @ reqs\<rparr>"
    by (simp add: body_stops_eq)
  with a show "fetchAllUsers_while env axios clock keyType s
           = Some (s\<lparr>morePages := False, issued := issued s @ reqs\<rparr>)"
    by (simp add: while_step while_stopped)
next
  let ?s0 = "\<lparr>allUsers = [], startingAfter = JNull, morePages = True, issued = []\<rparr>"
  let ?s1 = "\<lparr>allUsers = p1, startingAfter = i1, morePages = True, issued = reqs1\<rparr>"
  let ?W = "fetchAllUsers_while env axios clock keyType"
  let ?B = "fetchAllUsers_body env axios clock keyType"
  assume a: "fetchUsersPage env (axios 0) (clock 0) 100 JNull (Some keyType) = (Inr (JArr p1), reqs1)
        \<and> length p1 = 100 \<and> js_member (last p1) ''id'' = Inr i1
        \<and> fetchUsersPage env (axios 1) (clock 1) 100 i1 (Some keyType) = (Inl error, reqs2)"
  then have f: "fetchUsersPage env (axios 0) (clock 0) 100 JNull (Some keyType) = (Inr (JArr p1), reqs1)"
    by simp
  from fetchUsersPage_Inr [OF f] have l: "length reqs1 = 1"
    by auto
  have n: "p1 \<noteq> []" using a by auto
  have b0: "?B ?s0 = ?s1"
    using body_page_eq [of env axios ?s0 clock keyType "JArr p1" reqs1 i1] a n by simp
  have b1: "?B ?s1 = ?s1\<lparr>morePages := False, issued := reqs1 @ reqs2\<rparr>"
    using body_stops_eq [of env axios ?s1 clock keyType error reqs2] a l by simp
  have "?W ?s0 = ?W ?s1" using while_step [of ?s0 env axios clock keyType] b0 by simp
  also have "\<dots> = ?W (?B ?s1)" using while_step [of ?s1 env axios clock keyType] by simp
  also have "\<dots> = Some (?B ?s1)" using while_stopped [of "?B ?s1"] b1 by simp
  finally show "fetchAllUsers env axios clock (Some keyType) = Some (p1, reqs1 @ reqs2)"
    using b1 by (simp add: fetchAllUsers_def default_param_def)
qed

theorem fetchAllUsers_partial_result_witness:
  "fetchUsersPage env_dev_only (page_then_failure 0) (clock_1000 0) 100 JNull (Some ''dev'')
     = (Inr (JArr (replicate 100 (user ''a''))),
        [users_request env_dev_only ''dev'' 100 JNull dev_token])
   \<and> fetchUsersPage env_dev_only (page_then_failure 1) (clock_1000 1) 100 (JStr ''a'') (Some ''dev'')
     = (Inl (Error ''Network Error'' None),
        [users_request env_dev_only ''dev'' 100 (JStr ''a'') dev_token])
   \<and> fetchAllUsers env_dev_only page_then_failure clock_1000 (Some ''dev'')
     = Some (replicate 100 (user ''a''),
             [users_request env_dev_only ''dev'' 100 JNull dev_token,
              users_request env_dev_only ''dev'' 100 (JStr ''a'') dev_token])"
proof -
  have a: "fetchUsersPage env_dev_only (page_then_failure 0) (clock_1000 0) 100 JNull (Some ''dev'')
     = (Inr (JArr (replicate 100 (user ''a''))),
        [users_request env_dev_only ''dev'' 100 JNull dev_token])"
    by (rule fetchUsersPage_page)
       (simp_all add: generateToken_dev_token page_then_failure_def page_of_users_page)
  have b: "fetchUsersPage env_dev_only (page_then_failure 1) (clock_1000 1) 100 (JStr ''a'') (Some ''dev'')
     = (Inl (Error ''Network Error'' None),
        [users_request env_dev_only ''dev'' 100 (JStr ''a'') dev_token])"
    by (simp add: fetchUsersPage_def Let_def default_param_def generateToken_dev_token
        page_then_failure_def)
  from fetchAllUsers_partial_result [where env = env_dev_only and axios = page_then_failure
      and clock = clock_1000 and keyType = "''dev''" and ?p1.0 = "replicate 100 (user ''a'')"
      and ?i1.0 = "JStr ''a''" and error = "Error ''Network Error'' None"
      and ?reqs1.0 = "[users_request env_dev_only ''dev'' 100 JNull dev_token]"
      and ?reqs2.0 = "[users_request env_dev_only ''dev'' 100 (JStr ''a'') dev_token]"] a b
  show ?thesis by (simp add: member_id_user)
qed

text \<open>
  C10. If the upstream, at some position \<open>k\<close> of the sequence of page requests,
  answers with a failure, an empty page or a page of fewer than 100 records, then
  \<open>fetchAllUsers\<close> returns, after at most \<open>k + 1\<close> requests: every pass either
  issues one more request after a full page or clears \<open>morePages\<close>.
\<close>

theorem fetchAllUsers_terminates:
  assumes "\<forall>request. ends_paging (axios k request)"
  shows "\<exists>users reqs. fetchAllUsers env axios clock keyType = Some (users, reqs)
           \<and> length reqs \<le> Suc k"
proof -
  let ?s0 = "\<lparr>allUsers = [], startingAfter = JNull, morePages = True, issued = []\<rparr>"
  have "length (issued ?s0) \<le> k" by simp
  from while_terminates [where axios = axios and k = k and s = ?s0, OF assms this]
  obtain s' where "fetchAllUsers_while env axios clock (default_param ''dev'' keyType) ?s0 = Some s'"
    and "length (issued s') \<le> Suc k" by blast
  then show ?thesis by (simp add: fetchAllUsers_def)
qed

theorem fetchAllUsers_terminates_witness:
  "(\<forall>request. ends_paging (three_pages 2 request))
   \<and> (\<exists>users reqs. fetchAllUsers env_dev_only three_pages clock_1000 None = Some (users, reqs)
         \<and> length reqs \<le> 3)"
proof -
  have e: "\<forall>request. ends_paging (three_pages 2 request)"
    by (simp add: ends_paging_def three_pages_def users_page_def)
  from fetchAllUsers_terminates [where axios = three_pages and k = 2 and env = env_dev_only
      and clock = clock_1000 and keyType = None, OF e] e
  show ?thesis by (simp add: numeral_3_eq_3)
qed

section \<open>The routes\<close>


lemma appIdToUse_credentials: "appIdToUse env keyType = fst (credentials env keyType)"
  by (simp add: appIdToUse_def credentials_def)

text \<open>A call with configured credentials hands exactly one request to the client.\<close>

lemma callTalkJSApi_configured:
  assumes "credentials env (default_param ''dev'' keyType) = (Some a, Some b)"
    and "a \<noteq> []" and "b \<noteq> []"
  shows "callTalkJSApi env ax now endpoint method_arg keyType data_arg =
           (let request =
                  \<lparr>http_method = default_param ''GET'' method_arg,
                   url = ''https://api.talkjs.com/v1/'' @ a @ endpoint,
                   authorization =
                     \<lparr>payload = [(''tokenType'', JStr ''app'')], key = b, iss = a,
                      iat = now, exp = now + 30\<rparr>,
                   content_type = ''application/json'',
                   data = (if data_arg = JUndefined then JNull else data_arg)\<rparr>
            in case ax request of
                 Inl error \<Rightarrow> (Inl error, [request])
               | Inr resp \<Rightarrow> (Inr (response_data resp), [request]))"
  using assms
  by (simp add: callTalkJSApi_def Let_def generateToken_eq default_param_def api_url_def
      appIdToUse_credentials js_value_def)

lemma callTalkJSApi_unconfigured:
  assumes "generateToken env (Some (default_param ''dev'' keyType)) now = Inl error"
  shows "callTalkJSApi env ax now endpoint method_arg keyType data_arg
           = (Inl (keys_error (default_param ''dev'' keyType)), [])"
  using assms
  by (auto simp add: callTalkJSApi_def Let_def generateToken_eq default_param_def
      split: option.splits prod.splits if_splits)

lemma error_reply_keys_error:
  "error_reply (keys_error k)
     = Reply 500 (JObj [(''error'', JStr (''API keys not configured for '' @ k @ '' environment.'')),
                        (''details'', JUndefined)])"
  by (simp add: error_reply_def keys_error_def response_status_def response_details_def)


text \<open>Every request of a call is made with the credentials its key type selects.\<close>

lemma generateToken_uses:
  assumes "generateToken env (Some keyType) now = Inr t"
  shows "Some (iss t) = fst (credentials env keyType) \<and> Some (key t) = snd (credentials env keyType)"
  using assms
  by (auto simp add: generateToken_eq Let_def default_param_def
      split: option.splits prod.splits if_splits)

lemma callTalkJSApi_uses:
  "\<forall>request \<in> set (snd (callTalkJSApi env ax now endpoint method_arg keyType data_arg)).
     uses_credentials env (default_param ''dev'' keyType) request"
  by (auto simp add: callTalkJSApi_def Let_def uses_credentials_def
      dest: generateToken_uses split: sum.splits)

lemma users_url_api_url:
  "users_url env keyType limit cursor
     = api_url env keyType (''/users?limit='' @ decimal limit
         @ (if truthy cursor then ''&startingAfter='' @ template cursor else []))"
  by (simp add: users_url_def api_url_def Let_def)

lemma fetchUsersPage_uses:
  "\<forall>request \<in> set (snd (fetchUsersPage env ax now limit cursor (Some keyType))).
     uses_credentials env keyType request"
proof -
  have "\<exists>endpoint. users_url env keyType limit c = api_url env keyType endpoint" for c
    unfolding users_url_api_url by blast
  then show ?thesis
    by (auto simp add: fetchUsersPage_def Let_def uses_credentials_def users_request_def
        default_param_def dest: generateToken_uses split: sum.splits if_splits)
qed

lemma body_uses:
  assumes "\<forall>request \<in> set (issued s). uses_credentials env keyType request"
  shows "\<forall>request \<in> set (issued (fetchAllUsers_body env axios clock keyType s)).
           uses_credentials env keyType request"
  using assms
    fetchUsersPage_uses [of env "axios (length (issued s))" "clock (length (issued s))" 100
      "startingAfter s" keyType]
  by (auto simp add: fetchAllUsers_body_def Let_def split: sum.splits prod.splits if_splits)

lemma while_uses:
  assumes "fetchAllUsers_while env axios clock keyType s = Some s'"
  shows "(\<forall>request \<in> set (issued s). uses_credentials env keyType request)
           \<longrightarrow> (\<forall>request \<in> set (issued s'). uses_credentials env keyType request)"
proof (rule fetchAllUsers_while.raw_induct
    [where P = "\<lambda>env axios clock keyType s s'.
        (\<forall>request \<in> set (issued s). uses_credentials env keyType request)
           \<longrightarrow> (\<forall>request \<in> set (issued s'). uses_credentials env keyType request)",
     OF _ assms])
  fix w env axios clock keyType s s'
  assume ih: "\<And>env axios clock keyType s s'. w env axios clock keyType s = Some s' \<Longrightarrow>
        (\<forall>request \<in> set (issued s). uses_credentials env keyType request)
           \<longrightarrow> (\<forall>request \<in> set (issued s'). uses_credentials env keyType request)"
    and eq: "(if morePages s
              then w env axios clock keyType (fetchAllUsers_body env axios clock keyType s)
              else Some s) = Some s'"
  show "(\<forall>request \<in> set (issued s). uses_credentials env keyType request)
           \<longrightarrow> (\<forall>request \<in> set (issued s'). uses_credentials env keyType request)"
  proof (cases "morePages s")
    case True
    with eq have "w env axios clock keyType (fetchAllUsers_body env axios clock keyType s) = Some s'"
      by simp
    from ih [OF this] body_uses [of s env keyType axios clock] show ?thesis by blast
  next
    case False
    with eq show ?thesis by simp
  qed
qed

lemma fetchAllUsers_uses:
  assumes "fetchAllUsers env axios clock (Some keyType) = Some (users, reqs)"
  shows "\<forall>request \<in> set reqs. uses_credentials env keyType request"
proof -
  from assms obtain s' where
    w: "fetchAllUsers_while env axios clock keyType
          \<lparr>allUsers = [], startingAfter = JNull, morePages = True, issued = []\<rparr> = Some s'"
    and r: "reqs = issued s'"
    by (auto simp add: fetchAllUsers_def default_param_def)
  from while_uses [OF w] r show ?thesis by simp
qed


text \<open>
  C6. \<open>GET /conversations/:conversationId\<close>, with the credentials configured so that
  the upstream call is made: when the call fails with an answer of status 404, the route
  replies 404 with the body \<open>{error: "Conversacion con ID <conversationId> no encontrada."}\<close>
  (its tenth letter being the o with acute accent, code point 243); any other failure of the call is answered
  with status 500 and the body \<open>{error: error.message, details: error.response?.data}\<close>.
\<close>

theorem get_conversation_upstream_failure:
  assumes "credentials env (default_param ''dev'' keyType) = (Some a, Some b)"
    and "a \<noteq> []" and "b \<noteq> []"
    and "axios 0
           \<lparr>http_method = ''GET'',
            url = ''https://api.talkjs.com/v1/'' @ a @ ''/conversations/'' @ conversationId,
            authorization =
              \<lparr>payload = [(''tokenType'', JStr ''app'')], key = b, iss = a,
               iat = clock 0, exp = clock 0 + 30\<rparr>,
            content_type = ''application/json'',
            data = JNull\<rparr> = Inl error"
  shows "fst (get_conversation env axios clock Conversation Message conversationId keyType)
           = (if response_status error = Some 404
              then Reply 404
                     (JObj [(''error'', JStr (''Conversaci'' @ [CHR 0xF3] @ ''n con ID ''
                                              @ conversationId @ '' no encontrada.''))])
              else Reply 500
                     (JObj [(''error'', JStr (message error)),
                            (''details'', response_details error)]))"
  using assms(4)
  by (simp add: get_conversation_def callTalkJSApi_configured [OF assms(1,2,3)] Let_def
      default_param_def get_conversation_catch_def not_found_message_def)

theorem get_conversation_upstream_failure_witness:
  "fst (get_conversation env_dev_only upstream_404 clock_1000 plain_model plain_model ''c1'' None)
     = Reply 404 (JObj [(''error'', JStr (''Conversaci'' @ [CHR 0xF3] @ ''n con ID c1 no encontrada.''))])
   \<and> fst (get_conversation env_dev_only upstream_down clock_1000 plain_model plain_model ''c1'' None)
     = Reply 500 (JObj [(''error'', JStr ''Network Error''), (''details'', JUndefined)])"
proof -
  have c: "credentials env_dev_only (default_param ''dev'' None) = (Some ''tDev'', Some ''sk_dev'')"
    by (simp add: credentials_def default_param_def env_dev_only_def)
  have 1: "fst (get_conversation env_dev_only upstream_404 clock_1000 plain_model plain_model ''c1'' None)
     = Reply 404 (JObj [(''error'', JStr (''Conversaci'' @ [CHR 0xF3] @ ''n con ID c1 no encontrada.''))])"
    using get_conversation_upstream_failure [OF c, where axios = upstream_404
        and clock = clock_1000 and conversationId = "''c1''"
        and error = "Error ''Request failed with status code 404''
            (Some \<lparr>status = 404, response_data = JObj [(''errorCode'', JStr ''NOT_FOUND'')]\<rparr>)"]
    by (simp add: upstream_404_def response_status_def)
  have 2: "fst (get_conversation env_dev_only upstream_down clock_1000 plain_model plain_model ''c1'' None)
     = Reply 500 (JObj [(''error'', JStr ''Network Error''), (''details'', JUndefined)])"
    using get_conversation_upstream_failure [OF c, where axios = upstream_down
        and clock = clock_1000 and conversationId = "''c1''"
        and error = "Error ''Network Error'' None"]
    by (simp add: upstream_down_def response_status_def response_details_def)
  from 1 2 show ?thesis by simp
qed

text \<open>
  C7. \<open>PUT /conversations/:conversationId/participants/:userId\<close> with the inbound
  body \<open>{access, notify}\<close>, in a deployment whose selected credentials are configured:
  the handler issues exactly one upstream request, a PUT to
  \<open>/conversations/<conversationId>/participants/<userId>\<close> of the selected application,
  whose body is exactly \<open>{access, notify}\<close> taken from the inbound body (other inbound
  members dropped), and on upstream success it replies 200 with the upstream response
  body.
\<close>

theorem put_participant_request:
  assumes "credentials env (default_param ''dev'' keyType) = (Some a, Some b)"
    and "a \<noteq> []" and "b \<noteq> []"
  shows "let request =
               \<lparr>http_method = ''PUT'',
                url = ''https://api.talkjs.com/v1/'' @ a @ ''/conversations/'' @ conversationId
                        @ ''/participants/'' @ userId,
                authorization =
                  \<lparr>payload = [(''tokenType'', JStr ''app'')], key = b, iss = a,
                   iat = clock 0, exp = clock 0 + 30\<rparr>,
                content_type = ''application/json'',
                data = JObj [(''access'', body_member body ''access''),
                             (''notify'', body_member body ''notify'')]\<rparr>
         in snd (put_participant env axios clock conversationId userId body keyType) = [request]
            \<and> (\<forall>resp. axios 0 request = Inr resp
                  \<longrightarrow> fst (put_participant env axios clock conversationId userId body keyType)
                        = Reply 200 (response_data resp))"
  by (simp add: put_participant_def callTalkJSApi_configured [OF assms] Let_def
      default_param_def split: sum.splits)

theorem put_participant_request_witness:
  "credentials env_dev_only ''dev'' = (Some ''tDev'', Some ''sk_dev'')
   \<and> put_participant env_dev_only upstream_empty_object clock_1000 ''c1'' ''u1''
        [(''access'', JStr ''ReadWrite''), (''notify'', JBool True), (''role'', JStr ''admin'')] None
     = (Reply 200 (JObj []),
        [\<lparr>http_method = ''PUT'',
          url = ''https://api.talkjs.com/v1/tDev/conversations/c1/participants/u1'',
          authorization = dev_token,
          content_type = ''application/json'',
          data = JObj [(''access'', JStr ''ReadWrite''), (''notify'', JBool True)]\<rparr>])"
proof -
  have c: "credentials env_dev_only (default_param ''dev'' None) = (Some ''tDev'', Some ''sk_dev'')
             \<and> ''tDev'' \<noteq> [] \<and> ''sk_dev'' \<noteq> []"
    by (simp add: credentials_def default_param_def env_dev_only_def)
  from put_participant_request [where env = env_dev_only and keyType = None and a = "''tDev''"
      and b = "''sk_dev''" and axios = upstream_empty_object and clock = clock_1000
      and conversationId = "''c1''" and userId = "''u1''"
      and body = "[(''access'', JStr ''ReadWrite''), (''notify'', JBool True), (''role'', JStr ''admin'')]"] c
  have "snd (put_participant env_dev_only upstream_empty_object clock_1000 ''c1'' ''u1''
        [(''access'', JStr ''ReadWrite''), (''notify'', JBool True), (''role'', JStr ''admin'')] None)
       = [\<lparr>http_method = ''PUT'',
          url = ''https://api.talkjs.com/v1/tDev/conversations/c1/participants/u1'',
          authorization = dev_token,
          content_type = ''application/json'',
          data = JObj [(''access'', JStr ''ReadWrite''), (''notify'', JBool True)]\<rparr>]
      \<and> fst (put_participant env_dev_only upstream_empty_object clock_1000 ''c1'' ''u1''
        [(''access'', JStr ''ReadWrite''), (''notify'', JBool True), (''role'', JStr ''admin'')] None)
       = Reply 200 (JObj [])"
    by (simp add: Let_def body_member_def dev_token_def clock_1000_def upstream_empty_object_def)
  with c show ?thesis
    by (simp add: default_param_def prod_eq_iff)
qed


text \<open>
  Without the credentials the same handler stops at the guard of \<open>generateToken\<close>: no
  request is issued and the reply is 500 with the configuration error.
\<close>

lemma put_participant_unconfigured:
  assumes "generateToken env keyType (clock 0) = Inl error"
  shows "put_participant env axios clock conversationId userId body keyType
           = (Reply 500 (JObj [(''error'', JStr (''API keys not configured for ''
                                  @ default_param ''dev'' keyType @ '' environment.'')),
                               (''details'', JUndefined)]),
              [])"
proof -
  from assms have "generateToken env (Some (default_param ''dev'' keyType)) (clock 0) = Inl error"
    by (simp add: generateToken_eq default_param_def)
  from callTalkJSApi_unconfigured [OF this] show ?thesis
    by (simp add: put_participant_def Let_def error_reply_keys_error)
qed

text \<open>
  C8, as stated, fails for \<open>GET /conversations\<close>: the handler calls the service with
  the endpoint alone, so with \<open>keyType=prod\<close> in the query the upstream request still
  carries the development application and a token signed with the development secret.
\<close>

theorem routes_select_environment_counterexample:
  "get_conversations env_both upstream_empty_object clock_1000 plain_model plain_model (Some ''prod'')
     = (Reply 200 (JObj [(''data'', JArr [])]),
        [\<lparr>http_method = ''GET'',
          url = ''https://api.talkjs.com/v1/tDev/conversations'',
          authorization =
            \<lparr>payload = [(''tokenType'', JStr ''app'')], key = ''sk_dev'', iss = ''tDev'',
             iat = 1000, exp = 1030\<rparr>,
          content_type = ''application/json'',
          data = JNull\<rparr>])
   \<and> credentials env_both ''prod'' = (Some ''tPro'', Some ''sk_pro'')
   \<and> \<not> uses_credentials env_both ''prod''
         \<lparr>http_method = ''GET'',
          url = ''https://api.talkjs.com/v1/tDev/conversations'',
          authorization =
            \<lparr>payload = [(''tokenType'', JStr ''app'')], key = ''sk_dev'', iss = ''tDev'',
             iat = 1000, exp = 1030\<rparr>,
          content_type = ''application/json'',
          data = JNull\<rparr>"
  by (simp add: uses_credentials_def get_conversations_def callTalkJSApi_def Let_def generateToken_eq default_param_def
      credentials_def env_both_def api_url_def appIdToUse_def js_value_def clock_1000_def
      upstream_empty_object_def)

text \<open>
  C8, amended. The routes that read \<open>keyType\<close> from the query (the two participant
  routes, \<open>GET /conversations/:conversationId\<close>, \<open>GET /users/:userId/conversations\<close>
  and \<open>GET /users\<close>) make every upstream request with the credentials that value
  selects, \<open>dev\<close> when it is absent; \<open>GET /v1/:appId/users/:userId\<close> selects by its
  path segment; \<open>GET /conversations\<close> ignores the query and always uses \<open>dev\<close>.
\<close>

theorem routes_select_environment:
  "(\<forall>request \<in> set (snd (put_participant env axios clock conversationId userId body keyType)).
      uses_credentials env (default_param ''dev'' keyType) request)
   \<and> (\<forall>request \<in> set (snd (delete_participant env axios clock conversationId userId keyType)).
      uses_credentials env (default_param ''dev'' keyType) request)
   \<and> (\<forall>request \<in> set (snd (get_conversation env axios clock Conversation Message
                                conversationId keyType)).
      uses_credentials env (default_param ''dev'' keyType) request)
   \<and> (\<forall>request \<in> set (snd (get_user_conversations env axios clock userId keyType)).
      uses_credentials env (default_param ''dev'' keyType) request)
   \<and> (\<forall>reply reqs. get_users env axios clock keyType = Some (reply, reqs)
        \<longrightarrow> (\<forall>request \<in> set reqs.
               uses_credentials env
                 (case keyType of None \<Rightarrow> ''dev'' | Some k \<Rightarrow> if k \<noteq> [] then k else ''dev'')
                 request))
   \<and> (\<forall>request \<in> set (snd (get_user env axios clock appId userId)).
      uses_credentials env appId request)
   \<and> (\<forall>request \<in> set (snd (get_conversations env axios clock Conversation Message keyType)).
      uses_credentials env ''dev'' request)"
proof (intro conjI)
  show "\<forall>request \<in> set (snd (put_participant env axios clock conversationId userId body keyType)).
      uses_credentials env (default_param ''dev'' keyType) request"
    using callTalkJSApi_uses [of env "axios 0" "clock 0"
        "''/conversations/'' @ conversationId @ ''/participants/'' @ userId" "Some ''PUT''" keyType
        "JObj [(''access'', body_member body ''access''), (''notify'', body_member body ''notify'')]"]
    by (auto simp add: put_participant_def Let_def split: prod.splits sum.splits)
  show "\<forall>request \<in> set (snd (delete_participant env axios clock conversationId userId keyType)).
      uses_credentials env (default_param ''dev'' keyType) request"
    using callTalkJSApi_uses [of env "axios 0" "clock 0"
        "''/conversations/'' @ conversationId @ ''/participants/'' @ userId" "Some ''DELETE''"
        keyType JUndefined]
    by (auto simp add: delete_participant_def split: prod.splits sum.splits)
  show "\<forall>request \<in> set (snd (get_conversation env axios clock Conversation Message
                                conversationId keyType)).
      uses_credentials env (default_param ''dev'' keyType) request"
    using callTalkJSApi_uses [of env "axios 0" "clock 0" "''/conversations/'' @ conversationId"
        "Some ''GET''" keyType JUndefined]
    by (auto simp add: get_conversation_def split: prod.splits sum.splits if_splits)
  show "\<forall>request \<in> set (snd (get_user_conversations env axios clock userId keyType)).
      uses_credentials env (default_param ''dev'' keyType) request"
    using callTalkJSApi_uses [of env "axios 0" "clock 0" "''/users/'' @ userId @ ''/conversations''"
        "Some ''GET''" keyType JUndefined]
    by (auto simp add: get_user_conversations_def Let_def split: prod.splits sum.splits)
  show "\<forall>reply reqs. get_users env axios clock keyType = Some (reply, reqs)
        \<longrightarrow> (\<forall>request \<in> set reqs.
               uses_credentials env
                 (case keyType of None \<Rightarrow> ''dev'' | Some k \<Rightarrow> if k \<noteq> [] then k else ''dev'')
                 request)"
    by (auto simp add: get_users_def Let_def dest: fetchAllUsers_uses split: option.splits)
  show "\<forall>request \<in> set (snd (get_user env axios clock appId userId)).
      uses_credentials env appId request"
    using callTalkJSApi_uses [of env "axios 0" "clock 0" "''/users/'' @ userId" "Some ''GET''"
        "Some appId" JUndefined]
    by (auto simp add: get_user_def default_param_def split: prod.splits sum.splits option.splits)
  show "\<forall>request \<in> set (snd (get_conversations env axios clock Conversation Message keyType)).
      uses_credentials env ''dev'' request"
    using callTalkJSApi_uses [of env "axios 0" "clock 0" "''/conversations''" None None JUndefined]
    by (auto simp add: get_conversations_def default_param_def
        split: prod.splits sum.splits json.splits)
qed

theorem routes_select_environment_witness:
  "snd (get_conversation env_both upstream_empty_object clock_1000 plain_model plain_model ''c1''
          (Some ''prod''))
     = [\<lparr>http_method = ''GET'',
         url = ''https://api.talkjs.com/v1/tPro/conversations/c1'',
         authorization =
           \<lparr>payload = [(''tokenType'', JStr ''app'')], key = ''sk_pro'', iss = ''tPro'',
            iat = 1000, exp = 1030\<rparr>,
         content_type = ''application/json'',
         data = JNull\<rparr>]
   \<and> uses_credentials env_both ''prod''
        \<lparr>http_method = ''GET'',
         url = ''https://api.talkjs.com/v1/tPro/conversations/c1'',
         authorization =
           \<lparr>payload = [(''tokenType'', JStr ''app'')], key = ''sk_pro'', iss = ''tPro'',
            iat = 1000, exp = 1030\<rparr>,
         content_type = ''application/json'',
         data = JNull\<rparr>"
proof -
  have e: "snd (get_conversation env_both upstream_empty_object clock_1000 plain_model plain_model ''c1''
          (Some ''prod''))
     = [\<lparr>http_method = ''GET'',
         url = ''https://api.talkjs.com/v1/tPro/conversations/c1'',
         authorization =
           \<lparr>payload = [(''tokenType'', JStr ''app'')], key = ''sk_pro'', iss = ''tPro'',
            iat = 1000, exp = 1030\<rparr>,
         content_type = ''application/json'',
         data = JNull\<rparr>]"
    by (simp add: get_conversation_def callTalkJSApi_def Let_def generateToken_eq default_param_def
      credentials_def env_both_def api_url_def appIdToUse_def js_value_def clock_1000_def
      upstream_empty_object_def is_object_def to_conversation_def)
  from routes_select_environment [where env = env_both and axios = upstream_empty_object
      and clock = clock_1000 and Conversation = plain_model and Message = plain_model
      and conversationId = "''c1''" and keyType = "Some ''prod''"]
  have "\<forall>request \<in> set (snd (get_conversation env_both upstream_empty_object clock_1000
            plain_model plain_model ''c1'' (Some ''prod''))).
          uses_credentials env_both ''prod'' request"
    by (simp add: default_param_def)
  with e show ?thesis by simp
qed

text \<open>
  C9 names a defect. With no credentials configured, \<open>GET /users\<close> replies 200 with
  \<open>{users: []}\<close> and issues no request: the configuration error is thrown inside the
  \<open>try\<close> of the loop and caught there. The sibling route \<open>GET /conversations\<close>
  surfaces the same error as a 500 reply.
\<close>

theorem get_users_missing_credentials:
  "get_users env_unset axios clock keyType = Some (Reply 200 (JObj [(''users'', JArr [])]), [])
   \<and> get_conversations env_unset axios clock Conversation Message keyType
       = (Reply 500 (JObj [(''error'', JStr ''API keys not configured for dev environment.''),
                           (''details'', JUndefined)]),
          [])"
proof -
  let ?s0 = "\<lparr>allUsers = [], startingAfter = JNull, morePages = True, issued = []\<rparr>"
  have g: "generateToken env_unset (Some k) now = Inl (keys_error k)" for k now
    by (simp add: generateToken_eq default_param_def credentials_def env_unset_def)
  have p: "fetchUsersPage env_unset ax now 100 c (Some k) = (Inl (keys_error k), [])" for ax now c k
    by (simp add: fetchUsersPage_def Let_def default_param_def g)
  have b: "fetchAllUsers_body env_unset axios clock k ?s0 = ?s0\<lparr>morePages := False\<rparr>" for k
    by (simp add: fetchAllUsers_body_def Let_def p)
  have "fetchAllUsers_while env_unset axios clock k ?s0 = Some (?s0\<lparr>morePages := False\<rparr>)" for k
    using while_step [of ?s0 env_unset axios clock k] b [of k]
      while_stopped [of "?s0\<lparr>morePages := False\<rparr>" env_unset axios clock k]
    by simp
  then have f: "fetchAllUsers env_unset axios clock k = Some ([], [])" for k
    by (simp add: fetchAllUsers_def)
  have 1: "get_users env_unset axios clock keyType = Some (Reply 200 (JObj [(''users'', JArr [])]), [])"
    by (simp add: get_users_def Let_def f)
  have 2: "get_conversations env_unset axios clock Conversation Message keyType
       = (Reply 500 (JObj [(''error'', JStr ''API keys not configured for dev environment.''),
                           (''details'', JUndefined)]),
          [])"
    by (simp add: get_conversations_def callTalkJSApi_def Let_def default_param_def g
        error_reply_keys_error)
  from 1 2 show ?thesis by simp
qed

end
